theory Spec2Isabelle
  imports Main "HOL-Library.Sublist"
begin

section \<open>Python values used by \<^verbatim>\<open>actionshark/github.py\<close>\<close>

text \<open>
  The module is one class, \<^verbatim>\<open>GitHub\<close>, whose methods read and write the attributes of
  \<^verbatim>\<open>self\<close>, send HTTP requests, sleep, print and write files. The embedding passes the
  instance (\<open>session\<close>) and the outside world (\<open>world\<close>) explicitly. Every exception and
  every \<^verbatim>\<open>sys.exit\<close> is a value of \<open>error\<close>; nothing in the module catches one, so an error
  ends the run.

  Parsed JSON is the datatype \<open>json\<close>. Numbers are integers (the API's quota fields and
  identifiers are); an object is an association list read with \<open>map_of\<close>, standing for the
  parsed \<^verbatim>\<open>dict\<close>.
\<close>

datatype json =
    JNull
  | JBool bool
  | JNum int
  | JStr string
  | JArr "json list"
  | JObj "(string \<times> json) list"

datatype error =
    SystemExit int
  | TypeError
  | AttributeError
  | KeyError
  | ValueError
  | JSONDecodeError
  | ConnectionError
  | FileNotFoundError
  | Out_of_fuel

text \<open>Python's truth value of a parsed JSON value (\<^verbatim>\<open>if not response_JSON\<close>).\<close>

fun truthy :: "json \<Rightarrow> bool" where
  "truthy JNull = False"
| "truthy (JBool b) = b"
| "truthy (JNum n) = (n \<noteq> 0)"
| "truthy (JStr s) = (s \<noteq> [])"
| "truthy (JArr xs) = (xs \<noteq> [])"
| "truthy (JObj kvs) = (kvs \<noteq> [])"

text \<open>Truth value of an \<^verbatim>\<open>Optional[str]\<close> argument: \<^verbatim>\<open>None\<close> and \<^verbatim>\<open>''\<close> are false.\<close>

fun truthy_str :: "string option \<Rightarrow> bool" where
  "truthy_str None = False"
| "truthy_str (Some s) = (s \<noteq> [])"

text \<open>\<^verbatim>\<open>d[key]\<close> on a parsed value: only a dict can be subscripted by a string.\<close>

fun subscript :: "json \<Rightarrow> string \<Rightarrow> error + json" where
  "subscript (JObj kvs) k = (case map_of kvs k of None \<Rightarrow> Inl KeyError | Some v \<Rightarrow> Inr v)"
| "subscript j k = Inl TypeError"

text \<open>\<^verbatim>\<open>d.get(key)\<close>: \<^verbatim>\<open>None\<close> for a missing key; only a dict has the method.\<close>

fun dict_get :: "json \<Rightarrow> string \<Rightarrow> error + json" where
  "dict_get (JObj kvs) k = Inr (case map_of kvs k of None \<Rightarrow> JNull | Some v \<Rightarrow> v)"
| "dict_get j k = Inl AttributeError"

text \<open>A value used as a number (\<^verbatim>\<open>bool\<close> is a subclass of \<^verbatim>\<open>int\<close>).\<close>

fun as_int :: "json \<Rightarrow> error + int" where
  "as_int (JNum n) = Inr n"
| "as_int (JBool b) = Inr (if b then 1 else 0)"
| "as_int j = Inl TypeError"

text \<open>Sequencing of pure steps that may raise.\<close>

definition bind_sum :: "error + 'a \<Rightarrow> ('a \<Rightarrow> error + 'b) \<Rightarrow> error + 'b" where
  "bind_sum m f = (case m of Inl e \<Rightarrow> Inl e | Inr x \<Rightarrow> f x)"

subsection \<open>Strings: \<^verbatim>\<open>str(int)\<close>, \<^verbatim>\<open>str(bool)\<close> and \<^verbatim>\<open>str.format\<close>\<close>

definition digit_char :: "nat \<Rightarrow> char" where
  "digit_char d = ''0123456789'' ! d"

fun str_nat :: "nat \<Rightarrow> string" where
  "str_nat n = (if n < 10 then [digit_char n] else str_nat (n div 10) @ [digit_char (n mod 10)])"

definition str_int :: "int \<Rightarrow> string" where
  "str_int i = (if i < 0 then CHR ''-'' # str_nat (nat (- i)) else str_nat (nat i))"

definition str_bool :: "bool \<Rightarrow> string" where
  "str_bool b = (if b then ''True'' else ''False'')"

text \<open>
  \<^verbatim>\<open>template.format(**kw)\<close> for templates whose replacement fields are plain names
  (\<^verbatim>\<open>{owner}\<close>): the second argument is the field being read, if any. A name that is not
  a keyword raises \<^verbatim>\<open>KeyError\<close>; an unmatched brace raises \<^verbatim>\<open>ValueError\<close>.
\<close>

fun format_from :: "(string \<times> string) list \<Rightarrow> string option \<Rightarrow> string \<Rightarrow> error + string" where
  "format_from kw None [] = Inr []"
| "format_from kw (Some name) [] = Inl ValueError"
| "format_from kw None (c # cs) =
     (if c = CHR ''{'' then format_from kw (Some []) cs
      else if c = CHR ''}'' then Inl ValueError
      else bind_sum (format_from kw None cs) (\<lambda>r. Inr (c # r)))"
| "format_from kw (Some name) (c # cs) =
     (if c = CHR ''}'' then
        (case map_of kw name of
           None \<Rightarrow> Inl KeyError
         | Some v \<Rightarrow> bind_sum (format_from kw None cs) (\<lambda>r. Inr (v @ r)))
      else format_from kw (Some (name @ [c])) cs)"

definition format_py :: "string \<Rightarrow> (string \<times> string) list \<Rightarrow> error + string" where
  "format_py template kw = format_from kw None template"

section \<open>The outside world\<close>

text \<open>
  \<^verbatim>\<open>requests.get\<close> is a capability of the world: the world holds the responses the server
  will give, in order, and a request takes the next one. When none is left the transport
  fails (\<^verbatim>\<open>requests\<close> raises \<^verbatim>\<open>ConnectionError\<close>). A response's \<open>body\<close> is its parsed JSON,
  \<open>None\<close> when the body is not JSON (\<^verbatim>\<open>response.json()\<close> raises).

  Time is whole seconds (\<^verbatim>\<open>get_dt_now\<close> drops the microseconds; the API's \<^verbatim>\<open>reset\<close> is a
  whole epoch second); \<open>now\<close> is the clock and only \<^verbatim>\<open>sleep\<close> advances it. A naive
  \<^verbatim>\<open>datetime\<close> is its number of seconds, a \<^verbatim>\<open>timedelta\<close> a difference of two.

  Everything the program does to the world is appended to \<open>trace\<close>. Of the console output,
  the unconditional \<^verbatim>\<open>print\<close> calls are recorded; the progress messages printed only when
  \<^verbatim>\<open>self.verbose\<close> is set are not (they change neither state nor control flow).
\<close>

record response =
  status_code :: int
  reason :: string
  body :: "json option"

datatype event =
    Request string "(string \<times> string) list"
  | Sleep int
  | Sink_call json "string option"
  | File_write string json
  | Mkdir string
  | Print string

record world =
  now :: int
  responses :: "response list"
  environ :: "(string \<times> string) list"
  files :: "(string \<times> json option) list"
  dirs :: "string list"
  trace :: "event list"

text \<open>A computation in the world: its result or the exception, and the world it leaves.\<close>

type_synonym 'a run = "(error + 'a) \<times> world"

definition bind_run :: "'a run \<Rightarrow> ('a \<Rightarrow> world \<Rightarrow> 'b run) \<Rightarrow> 'b run" where
  "bind_run m f = (case m of (Inl e, w) \<Rightarrow> (Inl e, w) | (Inr x, w) \<Rightarrow> f x w)"

definition emit :: "event \<Rightarrow> world \<Rightarrow> world" where
  "emit e w = w\<lparr>trace := trace w @ [e]\<rparr>"

definition lift_run :: "error + 'a \<Rightarrow> world \<Rightarrow> 'a run" where
  "lift_run m w = (m, w)"

text \<open>\<^verbatim>\<open>requests.get(url, headers=h)\<close>.\<close>

definition requests_get :: "string \<Rightarrow> (string \<times> string) list \<Rightarrow> world \<Rightarrow> response run" where
  "requests_get url hdrs w =
     (case responses w of
        [] \<Rightarrow> (Inl ConnectionError, emit (Request url hdrs) w)
      | r # rs \<Rightarrow> (Inr r, emit (Request url hdrs) (w\<lparr>responses := rs\<rparr>)))"

text \<open>\<^verbatim>\<open>time.sleep(n)\<close>: a negative argument raises \<^verbatim>\<open>ValueError\<close>.\<close>

definition sleep_py :: "int \<Rightarrow> world \<Rightarrow> unit run" where
  "sleep_py n w =
     (if n < 0 then (Inl ValueError, w)
      else (Inr (), emit (Sleep n) (w\<lparr>now := now w + n\<rparr>)))"

text \<open>\<^verbatim>\<open>print(x)\<close>.\<close>

definition print_py :: "string \<Rightarrow> world \<Rightarrow> unit run" where
  "print_py line w = (Inr (), emit (Print line) w)"

text \<open>
  The directory part of a path, and whether it exists (the empty one is the working
  directory). Opening a file for writing, and \<^verbatim>\<open>os.mkdir\<close>, need the parent directory.
\<close>

definition dirname :: "string \<Rightarrow> string" where
  "dirname p = rev (drop 1 (dropWhile (\<lambda>c. c \<noteq> CHR ''/'') (rev p)))"

definition dir_exists :: "world \<Rightarrow> string \<Rightarrow> bool" where
  "dir_exists w d = (d = [] \<or> d \<in> set (dirs w))"

definition os_mkdir :: "string \<Rightarrow> world \<Rightarrow> unit run" where
  "os_mkdir p w =
     (if dir_exists w (dirname p) then (Inr (), emit (Mkdir p) (w\<lparr>dirs := dirs w @ [p]\<rparr>))
      else (Inl FileNotFoundError, w))"

text \<open>\<^verbatim>\<open>with open(path, 'w') as f: json.dump(value, f, indent=4)\<close>.\<close>

definition write_json :: "string \<Rightarrow> json \<Rightarrow> world \<Rightarrow> unit run" where
  "write_json path v w =
     (if dir_exists w (dirname path) then (Inr (), emit (File_write path v) w)
      else (Inl FileNotFoundError, w))"

text \<open>\<^verbatim>\<open>with open(path, 'r') as f: json.load(f)\<close>.\<close>

definition read_json :: "string \<Rightarrow> world \<Rightarrow> json run" where
  "read_json path w =
     (case map_of (files w) path of
        None \<Rightarrow> (Inl FileNotFoundError, w)
      | Some None \<Rightarrow> (Inl JSONDecodeError, w)
      | Some (Some j) \<Rightarrow> (Inr j, w))"

section \<open>The class \<^verbatim>\<open>GitHub\<close>\<close>

text \<open>
  The sink \<^verbatim>\<open>save_mongo\<close> is a callable supplied by the caller, or \<^verbatim>\<open>None\<close>. What it
  does with a page is outside the program; the model keeps whether the call raises.
\<close>

type_synonym sink = "json \<Rightarrow> string option \<Rightarrow> error option"

text \<open>
  The attributes of an instance. \<open>remaining\<close>, \<open>limit\<close>, \<open>reset_datetime\<close>,
  \<open>last_stop_datetime\<close> and \<open>force_to_sleep\<close> are created by the first assignment to them:
  \<open>None\<close> is an attribute that does not exist yet, and reading it raises
  \<^verbatim>\<open>AttributeError\<close>. \<open>total_requests\<close>, \<open>current_action\<close> and \<open>limit_handler_counter\<close>
  start from the class attributes \<^verbatim>\<open>0\<close>, \<^verbatim>\<open>None\<close>, \<^verbatim>\<open>0\<close>.
\<close>

record session =
  token :: json
  save_mongo :: "sink option"
  owner :: string
  repo :: string
  per_page :: int
  page :: int
  sleep_betw_requests :: int
  verbose :: bool
  remaining :: "int option"
  limit :: "json option"
  reset_datetime :: "int option"
  last_stop_datetime :: "int option"
  force_to_sleep :: "int option"
  total_requests :: int
  current_action :: "string option"
  limit_handler_counter :: int

definition attr :: "'a option \<Rightarrow> error + 'a" where
  "attr a = (case a of None \<Rightarrow> Inl AttributeError | Some v \<Rightarrow> Inr v)"

text \<open>The class attributes \<^verbatim>\<open>api_url\<close>, \<^verbatim>\<open>__headers\<close> and \<^verbatim>\<open>actions_url\<close> (lines 15-24).\<close>

definition api_url :: string where
  "api_url = ''https://api.github.com/''"

definition headers :: "(string \<times> string) list" where
  "headers = [(''Accept'', ''application/vnd.github.v3+json'')]"

definition actions_url :: "(string \<times> string) list" where
  "actions_url =
     [(''repos'', ''orgs/{org}/repos?per_page={per_page}''),
      (''workflows'', ''repos/{owner}/{repo}/actions/workflows?per_page={per_page}''),
      (''runs'', ''repos/{owner}/{repo}/actions/runs?per_page{per_page}''),
      (''jobs'', ''repos/{owner}/{repo}/actions/runs/{run_id}/jobs?per_page{per_page}''),
      (''artifacts'', ''repos/{owner}/{repo}/actions/runs/{run_id}/artifacts?per_page{per_page}'')]"

definition dict_item :: "(string \<times> 'a) list \<Rightarrow> string \<Rightarrow> error + 'a" where
  "dict_item d k = (case map_of d k of None \<Rightarrow> Inl KeyError | Some v \<Rightarrow> Inr v)"

subsection \<open>\<^verbatim>\<open>get_limit\<close> (lines 161-186)\<close>

text \<open>
  The quota fields of a successful \<^verbatim>\<open>rate_limit\<close> body, in the order the method reads
  them. \<^verbatim>\<open>remaining\<close> and \<^verbatim>\<open>reset\<close> are used as numbers; one that is not a number is
  reported where it is read. The local \<^verbatim>\<open>verbose\<close> makes the method print, which reads
  \<^verbatim>\<open>temp["used"]\<close> as well.
\<close>

definition core_fields :: "bool \<Rightarrow> response \<Rightarrow> error + int \<times> int \<times> json" where
  "core_fields verbose_arg resp =
     bind_sum (case body resp of None \<Rightarrow> Inl JSONDecodeError | Some j \<Rightarrow> Inr j) (\<lambda>j.
     bind_sum (subscript j ''resources'') (\<lambda>res.
     bind_sum (subscript res ''core'') (\<lambda>temp.
     bind_sum (subscript temp ''remaining'') (\<lambda>rem.
     bind_sum (as_int rem) (\<lambda>rem_n.
     bind_sum (subscript temp ''reset'') (\<lambda>rst.
     bind_sum (as_int rst) (\<lambda>rst_n.
     bind_sum (subscript temp ''limit'') (\<lambda>lim.
     bind_sum (if verbose_arg then subscript temp ''used'' else Inr JNull) (\<lambda>used.
       Inr (rem_n, rst_n, lim))))))))))"

definition get_limit :: "bool \<Rightarrow> session \<Rightarrow> world \<Rightarrow> session run" where
  "get_limit verbose_arg s w =
     bind_run (requests_get (api_url @ ''rate_limit'') headers w) (\<lambda>resp w.
       if status_code resp = 200 then
         bind_run (lift_run (core_fields verbose_arg resp) w) (\<lambda>(rem_n, rst_n, lim) w.
           (Inr (s\<lparr>remaining := Some rem_n, reset_datetime := Some rst_n, limit := Some lim\<rparr>), w))
       else
         bind_run (print_py (str_int (status_code resp)) w) (\<lambda>_ w.
         bind_run (print_py (reason resp) w) (\<lambda>_ w.
           (Inr s, w))))"

subsection \<open>\<^verbatim>\<open>update_limit_variables\<close> (lines 227-234)\<close>

definition update_limit_variables :: "session \<Rightarrow> world \<Rightarrow> session run" where
  "update_limit_variables s w =
     bind_run (get_limit False s w) (\<lambda>s w.
     bind_run (lift_run (attr (remaining s)) w) (\<lambda>rem w.
     bind_run (lift_run (attr (reset_datetime s)) w) (\<lambda>rst w.
       (Inr (s\<lparr>remaining := Some (rem - 2), reset_datetime := Some (rst + 2)\<rparr>), w))))"

subsection \<open>\<^verbatim>\<open>limit_handler\<close> (lines 190-223)\<close>

text \<open>
  \<^verbatim>\<open>timedelta.seconds\<close>: a \<^verbatim>\<open>timedelta\<close> is normalised to days, seconds and
  microseconds with \<^verbatim>\<open>0 <= seconds < 86400\<close> (the days carry the sign), so the attribute
  is the difference modulo one day.
\<close>

definition timedelta_seconds :: "int \<Rightarrow> int" where
  "timedelta_seconds d = d mod 86400"

definition limit_handler :: "session \<Rightarrow> world \<Rightarrow> session run" where
  "limit_handler s w =
     (let s = s\<lparr>last_stop_datetime := Some (now w)\<rparr> in
      bind_run (lift_run (attr (reset_datetime s)) w) (\<lambda>rst w.
        let s = s\<lparr>force_to_sleep := Some (timedelta_seconds (rst - now w))\<rparr>;
            s = s\<lparr>limit_handler_counter := limit_handler_counter s + 1\<rparr>
        in
        bind_run (sleep_py (timedelta_seconds (rst - now w)) w) (\<lambda>_ w.
        bind_run (update_limit_variables s w) (\<lambda>s w.
          if verbose s then get_limit True s w else (Inr s, w)))))"

subsection \<open>\<^verbatim>\<open>save_JSON\<close> (lines 477-499)\<close>

text \<open>\<^verbatim>\<open>save_path[:-5] + f'_{self.page}.json'\<close>, then the file is written.\<close>

definition save_JSON :: "json \<Rightarrow> string \<Rightarrow> session \<Rightarrow> world \<Rightarrow> unit run" where
  "save_JSON resp save_path s w =
     (let save_path = take (length save_path - 5) save_path @ ''_'' @ str_int (page s) @ ''.json''
      in write_json save_path resp w)"

subsection \<open>\<^verbatim>\<open>paginating\<close> (lines 238-311)\<close>

text \<open>
  One iteration of the \<^verbatim>\<open>while True\<close> loop ends in one of three ways: \<^verbatim>\<open>continue\<close> after
  the limit handler (\<open>Retry_page\<close>), the end of the body after a consumed page
  (\<open>Next_page\<close>), or \<^verbatim>\<open>break\<close> (\<open>Stop\<close>). The local variable \<^verbatim>\<open>github_url\<close> is passed in
  and returned with the flow.
\<close>

datatype flow = Retry_page | Next_page | Stop

definition page_suffix :: "session \<Rightarrow> string" where
  "page_suffix s = ''&page='' @ str_int (page s)"

text \<open>Lines 277-279: \<^verbatim>\<open>response.json()\<close>, and \<^verbatim>\<open>.get(checker)\<close> when \<^verbatim>\<open>checker\<close> is true.\<close>

definition response_JSON :: "string option \<Rightarrow> response \<Rightarrow> error + json" where
  "response_JSON checker resp =
     bind_sum (case body resp of None \<Rightarrow> Inl JSONDecodeError | Some j \<Rightarrow> Inr j) (\<lambda>j.
       case checker of
         None \<Rightarrow> Inr j
       | Some c \<Rightarrow> if c \<noteq> [] then dict_get j c else Inr j)"

text \<open>Line 289: \<^verbatim>\<open>self.save_mongo(response_JSON, self.current_action)\<close>.\<close>

definition call_save_mongo :: "json \<Rightarrow> session \<Rightarrow> world \<Rightarrow> unit run" where
  "call_save_mongo content s w =
     (case save_mongo s of
        None \<Rightarrow> (Inl TypeError, w)
      | Some f \<Rightarrow>
          (case f content (current_action s) of
             Some e \<Rightarrow> (Inl e, emit (Sink_call content (current_action s)) w)
           | None \<Rightarrow> (Inr (), emit (Sink_call content (current_action s)) w)))"

text \<open>Lines 288-311: the rest of the body once the page is known to be non-empty.\<close>

definition consume_page :: "json \<Rightarrow> string \<Rightarrow> string \<Rightarrow> session \<Rightarrow> world \<Rightarrow> (flow \<times> session \<times> string) run" where
  "consume_page content save_path github_url s w =
     bind_run (call_save_mongo content s w) (\<lambda>_ w.
     bind_run (save_JSON content save_path s w) (\<lambda>_ w.
       let github_url = take (length github_url - length (page_suffix s)) github_url;
           s = s\<lparr>page := page s + 1\<rparr>
       in
       bind_run (sleep_py (sleep_betw_requests s) w) (\<lambda>_ w.
         let s = s\<lparr>total_requests := total_requests s + 1\<rparr> in
         bind_run (lift_run (attr (remaining s)) w) (\<lambda>rem w.
           let s = s\<lparr>remaining := Some (rem - 1)\<rparr> in
           bind_run (print_py (''Reamining: '' @ str_int (rem - 1)) w) (\<lambda>_ w.
           bind_run (lift_run (attr (last_stop_datetime s)) w) (\<lambda>last_stop w.
             if now w - 3600 \<ge> last_stop then
               bind_run (update_limit_variables s w) (\<lambda>s w. (Inr (Next_page, s, github_url), w))
             else (Inr (Next_page, s, github_url), w)))))))"

text \<open>
  Lines 269-274: the test that sends the iteration to the limit handler. Python's \<^verbatim>\<open>or\<close>
  reads \<^verbatim>\<open>self.remaining\<close> only when the status is not 403.
\<close>

definition limit_reached :: "response \<Rightarrow> session \<Rightarrow> error + bool" where
  "limit_reached resp s =
     (if status_code resp = 403 then Inr True
      else bind_sum (attr (remaining s)) (\<lambda>rem. Inr (rem \<le> 1)))"

definition paginating_body :: "string option \<Rightarrow> string \<Rightarrow> session \<Rightarrow> world \<Rightarrow> string \<Rightarrow> (flow \<times> session \<times> string) run" where
  "paginating_body checker save_path s w github_url =
     (let github_url = github_url @ page_suffix s in
      bind_run (requests_get github_url headers w) (\<lambda>resp w.
        if status_code resp \<noteq> 200 \<and> status_code resp \<noteq> 403 then
          bind_run (print_py ''Error in request.'' w) (\<lambda>_ w.
          bind_run (print_py (str_int (status_code resp)) w) (\<lambda>_ w.
          bind_run (print_py (''<Response ['' @ str_int (status_code resp) @ '']>'') w) (\<lambda>_ w.
            (Inl (SystemExit 1), w))))
        else
          bind_run (lift_run (limit_reached resp s) w) (\<lambda>reached w.
            if reached then
              bind_run (limit_handler s w) (\<lambda>s w. (Inr (Retry_page, s, github_url), w))
            else
              bind_run (lift_run (response_JSON checker resp) w) (\<lambda>content w.
                if \<not> truthy content then (Inr (Stop, s, github_url), w)
                else consume_page content save_path github_url s w))))"

text \<open>
  The loop. It has no bound of its own: \<open>paginating\<close> takes the number of iterations it
  may run, and reaching it is the result \<open>Out_of_fuel\<close>, which is not an outcome of the
  program.
\<close>

fun paginating :: "nat \<Rightarrow> string \<Rightarrow> string option \<Rightarrow> string \<Rightarrow> session \<Rightarrow> world \<Rightarrow> session run" where
  "paginating 0 github_url checker save_path s w = (Inl Out_of_fuel, w)"
| "paginating (Suc n) github_url checker save_path s w =
     (case paginating_body checker save_path s w github_url of
        (Inl e, w') \<Rightarrow> (Inl e, w')
      | (Inr (Stop, s', url'), w') \<Rightarrow> (Inr s', w')
      | (Inr (Retry_page, s', url'), w') \<Rightarrow> paginating n url' checker save_path s' w'
      | (Inr (Next_page, s', url'), w') \<Rightarrow> paginating n url' checker save_path s' w')"

subsection \<open>The entry points (lines 315-453)\<close>

text \<open>\<^verbatim>\<open>save_path\<close> falls back to the method's default when it is \<^verbatim>\<open>None\<close> or empty.\<close>

definition path_or :: "string option \<Rightarrow> string \<Rightarrow> string" where
  "path_or save_path dflt =
     (case save_path of None \<Rightarrow> dflt | Some p \<Rightarrow> if p \<noteq> [] then p else dflt)"

definition get_owner_repostries :: "nat \<Rightarrow> string option \<Rightarrow> session \<Rightarrow> world \<Rightarrow> session run" where
  "get_owner_repostries fuel save_path s w =
     (let s = s\<lparr>current_action := Some ''repos''\<rparr>;
          s = s\<lparr>page := 1\<rparr>
      in
      bind_run (lift_run (bind_sum (dict_item actions_url ''repos'') (\<lambda>template.
          format_py template [(''org'', owner s), (''per_page'', str_int (per_page s))])) w) (\<lambda>url w.
        let github_url = api_url @ url;
            save_path = path_or save_path (''./data/repositories/'' @ owner s @ ''_repos.json'')
        in paginating fuel github_url None save_path s w))"

definition get_workflows :: "nat \<Rightarrow> string option \<Rightarrow> session \<Rightarrow> world \<Rightarrow> session run" where
  "get_workflows fuel save_path s w =
     (let s = s\<lparr>current_action := Some ''workflows''\<rparr>;
          s = s\<lparr>page := 1\<rparr>
      in
      bind_run (lift_run (bind_sum (dict_item actions_url ''workflows'') (\<lambda>template.
          format_py template
            [(''owner'', owner s), (''repo'', repo s), (''per_page'', str_int (per_page s))])) w) (\<lambda>url w.
        let github_url = api_url @ url;
            save_path = path_or save_path
              (''./data/workflows/'' @ owner s @ ''_'' @ repo s @ ''_workflows.json'')
        in paginating fuel github_url (Some ''workflows'') save_path s w))"

definition get_runs :: "nat \<Rightarrow> bool \<Rightarrow> string option \<Rightarrow> session \<Rightarrow> world \<Rightarrow> session run" where
  "get_runs fuel exclude_pull_requests save_path s w =
     (let s = s\<lparr>current_action := Some ''runs''\<rparr>;
          s = s\<lparr>page := 1\<rparr>
      in
      bind_run (lift_run (bind_sum (dict_item actions_url ''runs'') (\<lambda>template.
          format_py template
            [(''owner'', owner s), (''repo'', repo s), (''per_page'', str_int (per_page s))])) w) (\<lambda>url w.
        let url = url @ ''&exclude_pull_requests='' @ str_bool exclude_pull_requests;
            github_url = api_url @ url;
            save_path = path_or save_path
              (''./data/runs/'' @ owner s @ ''_'' @ repo s @ ''_runs.json'')
        in paginating fuel github_url (Some ''workflow_runs'') save_path s w))"

text \<open>
  A run identifier is an integer (\<^verbatim>\<open>run.id\<close>); \<^verbatim>\<open>None\<close> and \<^verbatim>\<open>0\<close> are false, and the
  method exits on them before anything else.
\<close>

fun truthy_id :: "int option \<Rightarrow> bool" where
  "truthy_id None = False"
| "truthy_id (Some i) = (i \<noteq> 0)"

fun str_id :: "int option \<Rightarrow> string" where
  "str_id None = ''None''"
| "str_id (Some i) = str_int i"

definition get_jobs :: "nat \<Rightarrow> int option \<Rightarrow> string option \<Rightarrow> session \<Rightarrow> world \<Rightarrow> session run" where
  "get_jobs fuel run_id save_path s w =
     (if \<not> truthy_id run_id then
        bind_run (print_py ''Please make to sure to pass the owner, repo name, and run id.'' w)
          (\<lambda>_ w. (Inl (SystemExit 1), w))
      else
        let s = s\<lparr>current_action := Some ''jobs''\<rparr>;
            s = s\<lparr>page := 1\<rparr>;
            run_id = str_id run_id
        in
        bind_run (lift_run (bind_sum (dict_item actions_url ''jobs'') (\<lambda>template.
            format_py template
              [(''owner'', owner s), (''repo'', repo s), (''run_id'', run_id),
               (''per_page'', str_int (per_page s))])) w) (\<lambda>url w.
          let github_url = api_url @ url;
              save_path = path_or save_path
                (''./data/jobs/'' @ owner s @ ''_'' @ repo s @ ''_run_'' @ run_id @ ''_jobs.json'')
          in paginating fuel github_url (Some ''jobs'') save_path s w))"

definition get_artifacts :: "nat \<Rightarrow> int option \<Rightarrow> string option \<Rightarrow> session \<Rightarrow> world \<Rightarrow> session run" where
  "get_artifacts fuel run_id save_path s w =
     (if \<not> truthy_id run_id then
        bind_run (print_py ''Please make to sure to pass both the owner and repo names.'' w)
          (\<lambda>_ w. (Inl (SystemExit 1), w))
      else
        let s = s\<lparr>current_action := Some ''artifacts''\<rparr>;
            s = s\<lparr>page := 1\<rparr>;
            run_id = str_id run_id
        in
        bind_run (lift_run (bind_sum (dict_item actions_url ''artifacts'') (\<lambda>template.
            format_py template
              [(''owner'', owner s), (''repo'', repo s), (''run_id'', run_id),
               (''per_page'', str_int (per_page s))])) w) (\<lambda>url w.
          let github_url = api_url @ url;
              save_path = path_or save_path
                (''./data/artifacts/'' @ owner s @ ''_'' @ repo s @ ''_run_'' @ run_id @ ''_artifacts.json'')
          in paginating fuel github_url (Some ''artifacts'') save_path s w))"

subsection \<open>\<^verbatim>\<open>get_all\<close> (lines 436-453)\<close>

text \<open>
  \<^verbatim>\<open>runs_object\<close> is \<^verbatim>\<open>None\<close> or an object supplied by the caller: its truth value, and
  the identifiers of the runs its \<^verbatim>\<open>objects()\<close> yields. \<^verbatim>\<open>None\<close> has no such method.
\<close>

record runs_object =
  is_true :: bool
  objects :: "int list"

fun truthy_runs :: "runs_object option \<Rightarrow> bool" where
  "truthy_runs None = False"
| "truthy_runs (Some r) = is_true r"

fun jobs_of_runs :: "nat \<Rightarrow> int list \<Rightarrow> session \<Rightarrow> world \<Rightarrow> session run" where
  "jobs_of_runs fuel [] s w = (Inr s, w)"
| "jobs_of_runs fuel (run # runs) s w =
     bind_run (get_jobs fuel (Some run) None s w) (\<lambda>s w. jobs_of_runs fuel runs s w)"

fun artifacts_of_runs :: "nat \<Rightarrow> int list \<Rightarrow> session \<Rightarrow> world \<Rightarrow> session run" where
  "artifacts_of_runs fuel [] s w = (Inr s, w)"
| "artifacts_of_runs fuel (run # runs) s w =
     bind_run (get_artifacts fuel (Some run) None s w) (\<lambda>s w. artifacts_of_runs fuel runs s w)"

definition get_all :: "nat \<Rightarrow> runs_object option \<Rightarrow> session \<Rightarrow> world \<Rightarrow> session run" where
  "get_all fuel runs s w =
     bind_run (get_owner_repostries fuel None s w) (\<lambda>s w.
     bind_run (get_workflows fuel None s w) (\<lambda>s w.
     bind_run (get_runs fuel False None s w) (\<lambda>s w.
       if \<not> truthy_runs runs then
         (case runs of
            None \<Rightarrow> (Inl AttributeError, w)
          | Some r \<Rightarrow>
              bind_run (jobs_of_runs fuel (objects r) s w) (\<lambda>s w.
                artifacts_of_runs fuel (objects r) s w))
       else (Inr s, w))))"

subsection \<open>\<^verbatim>\<open>create_folders\<close> and \<^verbatim>\<open>__init__\<close> (lines 31-101, 458-472)\<close>

fun create_folders :: "string list \<Rightarrow> world \<Rightarrow> unit run" where
  "create_folders [] w = (Inr (), w)"
| "create_folders (p # ps) w =
     (if p \<in> set (dirs w) then create_folders ps w
      else bind_run (os_mkdir p w) (\<lambda>_ w. create_folders ps w))"

definition data_folders :: "string list" where
  "data_folders =
     [''./actionshark/data'', ''./actionshark/data/search'', ''./actionshark/data/repositories'',
      ''./actionshark/data/workflows'', ''./actionshark/data/runs'', ''./actionshark/data/jobs'',
      ''./actionshark/data/artifacts'']"

text \<open>The arguments of the constructor, and their defaults.\<close>

record init_args =
  arg_owner :: "string option"
  arg_repo :: "string option"
  arg_per_page :: int
  arg_file_path :: "string option"
  arg_env_variable :: "string option"
  arg_save_mongo :: "sink option"
  arg_debug_mode :: bool
  arg_sleep_interval :: int
  arg_verbose :: bool

definition default_args :: init_args where
  "default_args =
     \<lparr>arg_owner = None, arg_repo = None, arg_per_page = 100, arg_file_path = None,
      arg_env_variable = None, arg_save_mongo = None, arg_debug_mode = True,
      arg_sleep_interval = 2, arg_verbose = True\<rparr>"

definition exit_with :: "string \<Rightarrow> world \<Rightarrow> 'a run" where
  "exit_with message w = bind_run (print_py message w) (\<lambda>_ w. (Inl (SystemExit 1), w))"

text \<open>\<^verbatim>\<open>file_path.split('.')[-1]\<close>: what follows the last dot.\<close>

definition extension :: "string \<Rightarrow> string" where
  "extension p = rev (takeWhile (\<lambda>c. c \<noteq> CHR ''.'') (rev p))"

definition str_of :: "string option \<Rightarrow> string" where
  "str_of a = (case a of None \<Rightarrow> [] | Some v \<Rightarrow> v)"

definition init :: "init_args \<Rightarrow> world \<Rightarrow> session run" where
  "init a w =
     bind_run (if arg_debug_mode a then create_folders data_folders w else (Inr (), w)) (\<lambda>_ w.
       if \<not> truthy_str (arg_file_path a) \<and> \<not> truthy_str (arg_env_variable a) then
         exit_with ''ERROR: Add the path to JSON file with Access Token'' w
       else if \<not> (truthy_str (arg_owner a) \<and> truthy_str (arg_repo a)) then
         exit_with ''Please make to sure to pass both the owner and repo names.'' w
       else
         bind_run
           (if truthy_str (arg_env_variable a) then
              (Inr (case map_of (environ w) (str_of (arg_env_variable a)) of
                      None \<Rightarrow> JNull | Some x \<Rightarrow> JStr x), w)
            else if extension (str_of (arg_file_path a)) \<noteq> ''json'' then
              exit_with ''Please pass a \"json\" file path or add file extention in case the file is \"json\".'' w
            else
              bind_run (read_json (str_of (arg_file_path a)) w) (\<lambda>lines w.
              bind_run (lift_run (dict_get lines ''access_token'') w) (\<lambda>tok w.
                if \<not> truthy tok then exit_with ''Please set the token key to \"access_token\".'' w
                else (Inr tok, w))))
           (\<lambda>tok w.
              if \<not> truthy tok then
                exit_with ''ERROR retriving token, please make sure you set the \"file_path\" or \"env_variable\" correctly.'' w
              else
                let s = \<lparr>token = tok, save_mongo = arg_save_mongo a,
                         owner = str_of (arg_owner a), repo = str_of (arg_repo a),
                         per_page = arg_per_page a, page = 1,
                         sleep_betw_requests = arg_sleep_interval a, verbose = arg_verbose a,
                         remaining = None, limit = None, reset_datetime = None,
                         last_stop_datetime = None, force_to_sleep = None,
                         total_requests = 0, current_action = None, limit_handler_counter = 0\<rparr>
                in
                bind_run (update_limit_variables s w) (\<lambda>s w.
                  (Inr (s\<lparr>last_stop_datetime := Some (now w)\<rparr>), w))))"

subsection \<open>The pages handed to the sink\<close>

text \<open>The number of sink calls a world has seen: one per consumed page.\<close>

fun is_sink_call :: "event \<Rightarrow> bool" where
  "is_sink_call (Sink_call content action) = True"
| "is_sink_call e = False"

definition sink_calls :: "world \<Rightarrow> int" where
  "sink_calls w = int (length (filter is_sink_call (trace w)))"

subsection \<open>Instances with a known quota\<close>

text \<open>
  The quota attributes exist on every instance the constructor returns, and every
  method keeps them (lemmas \<open>init_quota_known\<close>, \<open>paginating_quota\<close> below).
\<close>

definition quota_known :: "session \<Rightarrow> bool" where
  "quota_known s =
     (remaining s \<noteq> None \<and> reset_datetime s \<noteq> None \<and> last_stop_datetime s \<noteq> None)"

section \<open>Concrete sessions and worlds\<close>

text \<open>
  An instance as the constructor leaves it (58 requests left, reset at second 4600), a
  world whose clock reads 1000, and the responses used in the examples below.
\<close>

definition accept_all :: sink where
  "accept_all content action = None"

definition demo_session :: session where
  "demo_session =
     \<lparr>token = JStr ''ghp_demo'', save_mongo = Some accept_all, owner = ''apache'',
      repo = ''commons-lang'', per_page = 100, page = 1, sleep_betw_requests = 2,
      verbose = False, remaining = Some 58, limit = Some (JNum 60),
      reset_datetime = Some 4600, last_stop_datetime = Some 1000, force_to_sleep = None,
      total_requests = 0, current_action = None, limit_handler_counter = 0\<rparr>"

definition demo_world :: "response list \<Rightarrow> world" where
  "demo_world rs =
     \<lparr>now = 1000, responses = rs, environ = [(''GITHUB_Token'', ''ghp_demo'')], files = [],
      dirs = [''./data'', ''./data/repositories'', ''./data/workflows'', ''./data/runs'',
              ''./data/jobs'', ''./data/artifacts''],
      trace = []\<rparr>"

definition ok_response :: "json \<Rightarrow> response" where
  "ok_response j = \<lparr>status_code = 200, reason = ''OK'', body = Some j\<rparr>"

definition failure_response :: "int \<Rightarrow> string \<Rightarrow> response" where
  "failure_response code why = \<lparr>status_code = code, reason = why, body = None\<rparr>"

definition rate_limit_body :: "int \<Rightarrow> int \<Rightarrow> json" where
  "rate_limit_body rem rst =
     JObj [(''resources'', JObj [(''core'',
       JObj [(''limit'', JNum 60), (''used'', JNum (60 - rem)), (''remaining'', JNum rem),
             (''reset'', JNum rst)])])]"

definition repos_url :: string where
  "repos_url = ''https://api.github.com/orgs/apache/repos?per_page=100''"

definition repos_path :: string where
  "repos_path = ''./data/repositories/apache_repos.json''"

definition runs_url :: string where
  "runs_url = ''https://api.github.com/repos/apache/commons-lang/actions/runs?per_page100&exclude_pull_requests=False''"

definition runs_path :: string where
  "runs_path = ''./data/runs/apache_commons-lang_runs.json''"

definition demo_args :: init_args where
  "demo_args = default_args\<lparr>arg_owner := Some ''apache'', arg_repo := Some ''commons-lang'',
     arg_env_variable := Some ''GITHUB_Token'', arg_debug_mode := False, arg_verbose := False\<rparr>"

definition late_session :: session where
  "late_session = demo_session\<lparr>remaining := Some 1, reset_datetime := Some 995\<rparr>"

definition sink_args :: init_args where
  "sink_args = demo_args\<lparr>arg_save_mongo := Some accept_all\<rparr>"

definition discovered_runs :: runs_object where
  "discovered_runs = \<lparr>is_true = True, objects = [1511226364, 1514809363]\<rparr>"

text \<open>
  An instance with one request left, the empty page of the runs endpoint, a sink that
  raises, and a world whose quota answer leaves one request after the margin.
\<close>

definition low_session :: session where
  "low_session = demo_session\<lparr>remaining := Some 1\<rparr>"

definition empty_runs_page :: response where
  "empty_runs_page = ok_response (JObj [(''total_count'', JNum 0), (''workflow_runs'', JArr [])])"

definition refusing_sink :: sink where
  "refusing_sink content action = Some ValueError"

definition low_quota_world :: world where
  "low_quota_world = demo_world [ok_response (rate_limit_body 3 4598)]"

section \<open>Properties\<close>

subsection \<open>The definitions a concrete run unfolds\<close>

lemmas demo_defs = demo_session_def demo_world_def ok_response_def failure_response_def
  rate_limit_body_def repos_url_def repos_path_def runs_url_def runs_path_def demo_args_def
  default_args_def accept_all_def

lemmas run_defs = bind_run_def lift_run_def bind_sum_def attr_def emit_def Let_def
  requests_get_def sleep_py_def print_py_def write_json_def dir_exists_def dirname_def

lemmas quota_defs = get_limit_def core_fields_def update_limit_variables_def
  limit_handler_def timedelta_seconds_def api_url_def

lemmas page_defs = paginating_body_def limit_reached_def response_JSON_def consume_page_def
  call_save_mongo_def save_JSON_def page_suffix_def str_int_def digit_char_def

lemmas entry_defs = get_owner_repostries_def get_workflows_def get_runs_def get_jobs_def
  get_artifacts_def dict_item_def actions_url_def format_py_def path_or_def str_bool_def

subsection \<open>The transport and the quota refresh\<close>

lemma requests_get_Cons:
  "responses w = r # rs \<Longrightarrow>
   requests_get url h w = (Inr r, emit (Request url h) (w\<lparr>responses := rs\<rparr>))"
  by (simp add: requests_get_def)

lemma get_limit_non_200:
  assumes "responses w = r # rs" and "status_code r \<noteq> 200"
  shows "get_limit v s w =
    (Inr s, emit (Print (reason r)) (emit (Print (str_int (status_code r)))
       (emit (Request (api_url @ ''rate_limit'') headers) (w\<lparr>responses := rs\<rparr>))))"
  using assms by (simp add: get_limit_def requests_get_Cons bind_run_def print_py_def)

text \<open>
  Claim C5, as amended. When the \<^verbatim>\<open>rate_limit\<close> request returns a status other than 200,
  \<open>get_limit\<close> prints the status code and the reason and leaves every attribute as it
  was. \<open>update_limit_variables\<close>, which calls it, then applies its margin all the same:
  \<open>remaining\<close> goes down by 2 and \<open>reset_datetime\<close> forward by 2 seconds; \<open>limit\<close> and the
  other attributes are unchanged.
\<close>

theorem update_limit_variables_non_200:
  assumes "responses w = r # rs" and "status_code r \<noteq> 200"
    and "remaining s = Some q" and "reset_datetime s = Some t"
  shows "get_limit v s w =
      (Inr s, emit (Print (reason r)) (emit (Print (str_int (status_code r)))
         (emit (Request (api_url @ ''rate_limit'') headers) (w\<lparr>responses := rs\<rparr>))))
    \<and> update_limit_variables s w =
      (Inr (s\<lparr>remaining := Some (q - 2), reset_datetime := Some (t + 2)\<rparr>),
       emit (Print (reason r)) (emit (Print (str_int (status_code r)))
         (emit (Request (api_url @ ''rate_limit'') headers) (w\<lparr>responses := rs\<rparr>))))"
  using assms
  by (simp add: get_limit_non_200 update_limit_variables_def bind_run_def lift_run_def attr_def)

theorem update_limit_variables_non_200_witness:
  "fst (get_limit False demo_session (demo_world [failure_response 500 ''Internal Server Error'']))
     = Inr demo_session
   \<and> fst (update_limit_variables demo_session
            (demo_world [failure_response 500 ''Internal Server Error'']))
     = Inr (demo_session\<lparr>remaining := Some 56, reset_datetime := Some 4602\<rparr>)
   \<and> trace (snd (update_limit_variables demo_session
            (demo_world [failure_response 500 ''Internal Server Error'']))) =
       [Request ''https://api.github.com/rate_limit'' headers, Print ''500'',
        Print ''Internal Server Error'']"
  using update_limit_variables_non_200
    [of "demo_world [failure_response 500 ''Internal Server Error'']"
        "failure_response 500 ''Internal Server Error''" "[]" demo_session 58 4600 False]
  by (simp add: demo_world_def demo_session_def failure_response_def emit_def api_url_def
      str_int_def digit_char_def)

text \<open>
  Claim C5 as stated fails: with 58 requests left and the reset at second 4600, a
  refresh answered with status 500 leaves 56 and 4602.
\<close>

theorem update_limit_variables_changes_quota_on_failure:
  "remaining demo_session = Some 58 \<and> reset_datetime demo_session = Some 4600
   \<and> status_code (failure_response 500 ''Internal Server Error'') = 500
   \<and> (case fst (update_limit_variables demo_session
                  (demo_world [failure_response 500 ''Internal Server Error''])) of
         Inl e \<Rightarrow> False
       | Inr s' \<Rightarrow> remaining s' = Some 56 \<and> reset_datetime s' = Some 4602)"
  by (simp add: update_limit_variables_def get_limit_def requests_get_def bind_run_def
      lift_run_def attr_def print_py_def demo_world_def demo_session_def failure_response_def)

subsection \<open>What the refresh and the limit handler leave unchanged\<close>

lemma bind_run_Inr:
  "bind_run m f = (Inr y, w') \<Longrightarrow> \<exists>x w1. m = (Inr x, w1) \<and> f x w1 = (Inr y, w')"
  by (cases m; cases "fst m") (auto simp: bind_run_def)

lemma get_limit_frame:
  assumes "get_limit v s w = (Inr s', w')"
  shows "page s' = page s \<and> limit_handler_counter s' = limit_handler_counter s
     \<and> total_requests s' = total_requests s \<and> save_mongo s' = save_mongo s
     \<and> current_action s' = current_action s \<and> verbose s' = verbose s
     \<and> last_stop_datetime s' = last_stop_datetime s"
  using assms
  by (auto simp: get_limit_def requests_get_def bind_run_def lift_run_def print_py_def
      split: list.splits if_splits sum.splits prod.splits)

lemma update_limit_variables_frame:
  assumes "update_limit_variables s w = (Inr s', w')"
  shows "page s' = page s \<and> limit_handler_counter s' = limit_handler_counter s
     \<and> total_requests s' = total_requests s \<and> save_mongo s' = save_mongo s
     \<and> current_action s' = current_action s \<and> verbose s' = verbose s
     \<and> last_stop_datetime s' = last_stop_datetime s"
proof -
  from assms obtain s1 w1 where g: "get_limit False s w = (Inr s1, w1)"
    and rest: "bind_run (lift_run (attr (remaining s1)) w1) (\<lambda>rem w.
       bind_run (lift_run (attr (reset_datetime s1)) w) (\<lambda>rst w.
         (Inr (s1\<lparr>remaining := Some (rem - 2), reset_datetime := Some (rst + 2)\<rparr>), w)))
       = (Inr s', w')"
    unfolding update_limit_variables_def by (blast dest: bind_run_Inr)
  from rest have "page s' = page s1 \<and> limit_handler_counter s' = limit_handler_counter s1
     \<and> total_requests s' = total_requests s1 \<and> save_mongo s' = save_mongo s1
     \<and> current_action s' = current_action s1 \<and> verbose s' = verbose s1
     \<and> last_stop_datetime s' = last_stop_datetime s1"
    by (auto simp: bind_run_def lift_run_def attr_def split: option.splits)
  with get_limit_frame[OF g] show ?thesis by simp
qed

lemma limit_handler_frame:
  assumes "limit_handler s w = (Inr s', w')"
  shows "page s' = page s \<and> limit_handler_counter s' = limit_handler_counter s + 1
     \<and> total_requests s' = total_requests s \<and> save_mongo s' = save_mongo s
     \<and> current_action s' = current_action s \<and> verbose s' = verbose s"
proof -
  from assms obtain t where t: "reset_datetime s = Some t"
    by (cases "reset_datetime s") (auto simp: limit_handler_def bind_run_def lift_run_def attr_def Let_def)
  define s3 where "s3 = s\<lparr>last_stop_datetime := Some (now w),
      force_to_sleep := Some (timedelta_seconds (t - now w)),
      limit_handler_counter := limit_handler_counter s + 1\<rparr>"
  from assms t obtain w1 s4 w2 where
    u: "update_limit_variables s3 w1 = (Inr s4, w2)"
    and v: "(if verbose s4 then get_limit True s4 w2 else (Inr s4, w2)) = (Inr s', w')"
    unfolding limit_handler_def s3_def
    by (auto simp: Let_def lift_run_def attr_def bind_run_def sleep_py_def
        split: if_splits sum.splits prod.splits)
  from v have "page s' = page s4 \<and> limit_handler_counter s' = limit_handler_counter s4
     \<and> total_requests s' = total_requests s4 \<and> save_mongo s' = save_mongo s4
     \<and> current_action s' = current_action s4 \<and> verbose s' = verbose s4"
    using get_limit_frame[of True s4 w2 s' w'] by (auto split: if_splits)
  with update_limit_variables_frame[OF u] show ?thesis by (simp add: s3_def)
qed


subsection \<open>The branches of an iteration\<close>

lemma paginating_body_other_status:
  assumes "responses w = r # rs" and "status_code r \<noteq> 200" and "status_code r \<noteq> 403"
  shows "paginating_body c p s w u =
    (Inl (SystemExit 1),
     emit (Print (''<Response ['' @ str_int (status_code r) @ '']>''))
       (emit (Print (str_int (status_code r)))
         (emit (Print ''Error in request.'')
           (emit (Request (u @ page_suffix s) headers) (w\<lparr>responses := rs\<rparr>)))))"
  using assms
  by (simp add: paginating_body_def Let_def requests_get_Cons bind_run_def print_py_def)

lemma paginating_body_limit:
  assumes "responses w = r # rs"
    and "status_code r = 403 \<or> (status_code r = 200 \<and> remaining s = Some q \<and> q \<le> 1)"
  shows "paginating_body c p s w u =
    bind_run (limit_handler s (emit (Request (u @ page_suffix s) headers) (w\<lparr>responses := rs\<rparr>)))
      (\<lambda>s' w'. (Inr (Retry_page, s', u @ page_suffix s), w'))"
  using assms
  by (auto simp: paginating_body_def Let_def requests_get_Cons bind_run_def lift_run_def
      limit_reached_def bind_sum_def attr_def)

lemma paginating_body_content:
  assumes "responses w = r # rs" and "status_code r = 200"
    and "remaining s = Some q" and "1 < q"
  shows "paginating_body c p s w u =
    (case response_JSON c r of
       Inl e \<Rightarrow> (Inl e, emit (Request (u @ page_suffix s) headers) (w\<lparr>responses := rs\<rparr>))
     | Inr content \<Rightarrow>
         if \<not> truthy content then
           (Inr (Stop, s, u @ page_suffix s),
            emit (Request (u @ page_suffix s) headers) (w\<lparr>responses := rs\<rparr>))
         else consume_page content p (u @ page_suffix s) s
                (emit (Request (u @ page_suffix s) headers) (w\<lparr>responses := rs\<rparr>)))"
  using assms
  by (auto simp: paginating_body_def Let_def requests_get_Cons bind_run_def lift_run_def
      limit_reached_def bind_sum_def attr_def split: sum.splits)

lemma consume_page_frame:
  assumes "consume_page content p u s w = (Inr (f, s', u'), w')"
  shows "f = Next_page \<and> page s' = page s + 1 \<and> total_requests s' = total_requests s + 1
    \<and> limit_handler_counter s' = limit_handler_counter s \<and> save_mongo s' = save_mongo s
    \<and> u' = take (length u - length (page_suffix s)) u"
proof -
  define s2 where "s2 = s\<lparr>page := page s + 1, total_requests := total_requests s + 1\<rparr>"
  from assms obtain rem where rem: "remaining s = Some rem"
    by (cases "remaining s")
      (auto simp: consume_page_def Let_def bind_run_def lift_run_def attr_def
        split: sum.splits prod.splits)
  from assms rem obtain w3 where
    fin: "(Inr (f, s', u'), w') = (Inr (Next_page, s2\<lparr>remaining := Some (rem - 1)\<rparr>,
                take (length u - length (page_suffix s)) u), w3)
       \<or> (\<exists>s4. update_limit_variables (s2\<lparr>remaining := Some (rem - 1)\<rparr>) w3 = (Inr s4, w')
             \<and> f = Next_page \<and> s' = s4 \<and> u' = take (length u - length (page_suffix s)) u)"
    unfolding consume_page_def s2_def
    by (auto simp: Let_def bind_run_def lift_run_def attr_def print_py_def
        split: sum.splits prod.splits if_splits option.splits)
  then show ?thesis
  proof
    assume "(Inr (f, s', u'), w') = (Inr (Next_page, s2\<lparr>remaining := Some (rem - 1)\<rparr>,
                take (length u - length (page_suffix s)) u), w3)"
    then show ?thesis by (simp add: s2_def)
  next
    assume "\<exists>s4. update_limit_variables (s2\<lparr>remaining := Some (rem - 1)\<rparr>) w3 = (Inr s4, w')
             \<and> f = Next_page \<and> s' = s4 \<and> u' = take (length u - length (page_suffix s)) u"
    then obtain s4 where u4: "update_limit_variables (s2\<lparr>remaining := Some (rem - 1)\<rparr>) w3 = (Inr s4, w')"
      and e: "f = Next_page" "s' = s4" "u' = take (length u - length (page_suffix s)) u" by blast
    from update_limit_variables_frame[OF u4] e show ?thesis by (simp add: s2_def)
  qed
qed


subsection \<open>The URL templates, formatted\<close>

lemma format_repos:
  "format_py ''orgs/{org}/repos?per_page={per_page}'' [(''org'', org), (''per_page'', pp)]
     = Inr (''orgs/'' @ org @ ''/repos?per_page='' @ pp)"
  by (simp add: format_py_def bind_sum_def)

lemma format_workflows:
  "format_py ''repos/{owner}/{repo}/actions/workflows?per_page={per_page}''
     [(''owner'', ow), (''repo'', rp), (''per_page'', pp)]
     = Inr (''repos/'' @ ow @ ''/'' @ rp @ ''/actions/workflows?per_page='' @ pp)"
  by (simp add: format_py_def bind_sum_def)

lemma format_runs:
  "format_py ''repos/{owner}/{repo}/actions/runs?per_page{per_page}''
     [(''owner'', ow), (''repo'', rp), (''per_page'', pp)]
     = Inr (''repos/'' @ ow @ ''/'' @ rp @ ''/actions/runs?per_page'' @ pp)"
  by (simp add: format_py_def bind_sum_def)

lemma format_jobs:
  "format_py ''repos/{owner}/{repo}/actions/runs/{run_id}/jobs?per_page{per_page}''
     [(''owner'', ow), (''repo'', rp), (''run_id'', rid), (''per_page'', pp)]
     = Inr (''repos/'' @ ow @ ''/'' @ rp @ ''/actions/runs/'' @ rid @ ''/jobs?per_page'' @ pp)"
  by (simp add: format_py_def bind_sum_def)

lemma format_artifacts:
  "format_py ''repos/{owner}/{repo}/actions/runs/{run_id}/artifacts?per_page{per_page}''
     [(''owner'', ow), (''repo'', rp), (''run_id'', rid), (''per_page'', pp)]
     = Inr (''repos/'' @ ow @ ''/'' @ rp @ ''/actions/runs/'' @ rid @ ''/artifacts?per_page'' @ pp)"
  by (simp add: format_py_def bind_sum_def)

lemma str_int_1: "str_int 1 = ''1''"
  by (simp add: str_int_def digit_char_def)

subsection \<open>The trace only grows, and an iteration starts with its page request\<close>

lemma bind_run_prefix:
  assumes "prefix xs (trace (snd m))"
    and "\<And>x w1. prefix (trace w1) (trace (snd (f x w1)))"
  shows "prefix xs (trace (snd (bind_run m f)))"
proof (cases m)
  case (Pair a w1)
  show ?thesis
  proof (cases a)
    case (Inl e)
    with Pair assms(1) show ?thesis by (simp add: bind_run_def)
  next
    case (Inr x)
    with Pair assms(1) assms(2)[of w1 x] show ?thesis
      by (auto simp add: bind_run_def intro: prefix_order.trans)
  qed
qed

lemma lift_run_prefix: "prefix (trace w) (trace (snd (lift_run m w)))"
  by (simp add: lift_run_def)

lemma print_py_prefix: "prefix (trace w) (trace (snd (print_py l w)))"
  by (simp add: print_py_def emit_def)

lemma sleep_py_prefix: "prefix (trace w) (trace (snd (sleep_py k w)))"
  by (simp add: sleep_py_def emit_def)

lemma requests_get_trace: "trace (snd (requests_get url h w)) = trace w @ [Request url h]"
  by (simp add: requests_get_def emit_def split: list.splits)

lemma requests_get_prefix: "prefix (trace w) (trace (snd (requests_get url h w)))"
  by (simp add: requests_get_trace)

lemma get_limit_prefix: "prefix (trace w) (trace (snd (get_limit v s w)))"
  unfolding get_limit_def
  by (intro bind_run_prefix requests_get_prefix)
     (auto intro!: bind_run_prefix lift_run_prefix print_py_prefix split: prod.splits)

lemma update_limit_variables_prefix:
  "prefix (trace w) (trace (snd (update_limit_variables s w)))"
  unfolding update_limit_variables_def
  by (intro bind_run_prefix get_limit_prefix lift_run_prefix) simp

lemma limit_handler_prefix: "prefix (trace w) (trace (snd (limit_handler s w)))"
  unfolding limit_handler_def Let_def
  by (intro bind_run_prefix lift_run_prefix sleep_py_prefix update_limit_variables_prefix)
     (auto intro: get_limit_prefix)

lemma call_save_mongo_prefix: "prefix (trace w) (trace (snd (call_save_mongo j s w)))"
  by (simp add: call_save_mongo_def emit_def split: option.splits)

lemma save_JSON_prefix: "prefix (trace w) (trace (snd (save_JSON j p s w)))"
  by (simp add: save_JSON_def write_json_def emit_def Let_def)

lemma consume_page_prefix: "prefix (trace w) (trace (snd (consume_page j p u s w)))"
  unfolding consume_page_def Let_def
  by (intro bind_run_prefix call_save_mongo_prefix save_JSON_prefix sleep_py_prefix
        lift_run_prefix print_py_prefix)
     (auto intro!: bind_run_prefix update_limit_variables_prefix)

lemma paginating_body_prefix:
  "prefix (trace w @ [Request (u @ page_suffix s) headers])
     (trace (snd (paginating_body c p s w u)))"
  unfolding paginating_body_def Let_def
  by (intro bind_run_prefix)
     (auto simp: requests_get_trace
           intro!: bind_run_prefix print_py_prefix lift_run_prefix limit_handler_prefix
             consume_page_prefix)

lemma prefix_appendD1: "prefix (xs @ ys) zs \<Longrightarrow> prefix xs zs"
  by (auto simp: prefix_def)

lemma paginating_prefix: "prefix (trace w) (trace (snd (paginating n u c p s w)))"
proof (induction n arbitrary: u s w)
  case 0
  show ?case by simp
next
  case (Suc n)
  have b: "prefix (trace w) (trace (snd (paginating_body c p s w u)))"
    using paginating_body_prefix[of w u s c p] by (rule prefix_appendD1)
  show ?case
  proof (cases "paginating_body c p s w u")
    case (Pair a w')
    with b have w': "prefix (trace w) (trace w')" by simp
    show ?thesis
    proof (cases a)
      case (Inl e)
      with Pair w' show ?thesis by simp
    next
      case (Inr x)
      obtain f s' u' where x: "x = (f, s', u')" by (cases x)
      from Suc.IH[of w' u' s'] w'
      have "prefix (trace w) (trace (snd (paginating n u' c p s' w')))"
        by (metis prefix_order.trans)
      with Pair Inr x w' show ?thesis by (cases f) simp_all
    qed
  qed
qed

lemma paginating_first_request:
  "prefix (trace w @ [Request (u @ page_suffix s) headers])
     (trace (snd (paginating (Suc n) u c p s w)))"
proof (cases "paginating_body c p s w u")
  case (Pair a w')
  with paginating_body_prefix[of w u s c p]
  have w': "prefix (trace w @ [Request (u @ page_suffix s) headers]) (trace w')" by simp
  show ?thesis
  proof (cases a)
    case (Inl e)
    with Pair w' show ?thesis by simp
  next
    case (Inr x)
    obtain f s' u' where x: "x = (f, s', u')" by (cases x)
    from paginating_prefix[of w' n u' c p s'] w'
    have "prefix (trace w @ [Request (u @ page_suffix s) headers])
            (trace (snd (paginating n u' c p s' w')))"
      by (metis prefix_order.trans)
    with Pair Inr x w' show ?thesis by (cases f) simp_all
  qed
qed

subsection \<open>The three ways an iteration returns\<close>

lemma paginating_body_limit':
  assumes "responses w = r # rs" and "remaining s = Some q"
    and "status_code r = 403 \<or> (status_code r = 200 \<and> q \<le> 1)"
  shows "paginating_body c p s w u =
    bind_run (limit_handler s (emit (Request (u @ page_suffix s) headers) (w\<lparr>responses := rs\<rparr>)))
      (\<lambda>s' w'. (Inr (Retry_page, s', u @ page_suffix s), w'))"
proof (rule paginating_body_limit[OF assms(1)])
  from assms(2,3)
  show "status_code r = 403 \<or> status_code r = 200 \<and> remaining s = Some q \<and> q \<le> 1"
    by simp
qed

lemma paginating_body_returns:
  assumes "responses w = r # rs" and "remaining s = Some q"
    and res: "paginating_body c p s w u = (Inr (f, s', u'), w')"
  shows "(f = Retry_page \<and> (status_code r = 403 \<or> (status_code r = 200 \<and> q \<le> 1))
            \<and> page s' = page s \<and> limit_handler_counter s' = limit_handler_counter s + 1
            \<and> total_requests s' = total_requests s \<and> u' = u @ page_suffix s)
       \<or> (f = Next_page \<and> status_code r = 200 \<and> 1 < q
            \<and> (\<exists>content. response_JSON c r = Inr content \<and> truthy content)
            \<and> page s' = page s + 1 \<and> limit_handler_counter s' = limit_handler_counter s
            \<and> total_requests s' = total_requests s + 1 \<and> u' = u)
       \<or> (f = Stop \<and> status_code r = 200 \<and> 1 < q
            \<and> (\<exists>content. response_JSON c r = Inr content \<and> \<not> truthy content)
            \<and> s' = s \<and> u' = u @ page_suffix s)"
proof -
  let ?w1 = "emit (Request (u @ page_suffix s) headers) (w\<lparr>responses := rs\<rparr>)"
  let ?u1 = "u @ page_suffix s"
  consider (other) "status_code r \<noteq> 200" "status_code r \<noteq> 403"
    | (limit) "status_code r = 403 \<or> (status_code r = 200 \<and> q \<le> 1)"
    | (content) "status_code r = 200" "1 < q"
    by linarith
  then show ?thesis
  proof cases
    case other
    from paginating_body_other_status[OF assms(1) other, of c p s u] res
    show ?thesis by simp
  next
    case limit
    from paginating_body_limit'[OF assms(1,2) limit, of c p u] res
    have b: "bind_run (limit_handler s ?w1) (\<lambda>s' w'. (Inr (Retry_page, s', ?u1), w'))
               = (Inr (f, s', u'), w')" by simp
    from bind_run_Inr[OF b] obtain s1 w1 where
      lh: "limit_handler s ?w1 = (Inr s1, w1)"
      and eq: "(Inr (Retry_page, s1, ?u1), w1) = (Inr (f, s', u'), w')"
      by blast
    from eq have e: "f = Retry_page" "s' = s1" "u' = ?u1" by simp_all
    from limit_handler_frame[OF lh] e limit show ?thesis by simp
  next
    case content
    note body = paginating_body_content[OF assms(1) content(1) assms(2) content(2), of c p u]
    show ?thesis
    proof (cases "response_JSON c r")
      case (Inl e)
      with body res show ?thesis by simp
    next
      case (Inr j)
      show ?thesis
      proof (cases "truthy j")
        case True
        with body Inr res have cp: "consume_page j p ?u1 s ?w1 = (Inr (f, s', u'), w')"
          by simp
        from consume_page_frame[OF cp] have
          "f = Next_page" "page s' = page s + 1" "total_requests s' = total_requests s + 1"
          "limit_handler_counter s' = limit_handler_counter s" "u' = u"
          by simp_all
        with content Inr True show ?thesis by simp
      next
        case False
        with body Inr res have "f = Stop" "s' = s" "u' = ?u1" by simp_all
        with content Inr False show ?thesis by simp
      qed
    qed
  qed
qed


lemma paginating_body_no_remaining:
  assumes "responses w = r # rs" and "status_code r = 200" and "remaining s = None"
  shows "fst (paginating_body c p s w u) = Inl AttributeError"
  using assms
  by (simp add: paginating_body_def Let_def requests_get_Cons bind_run_def lift_run_def
      limit_reached_def bind_sum_def attr_def)

lemma paginating_body_no_response:
  assumes "responses w = []"
  shows "fst (paginating_body c p s w u) = Inl ConnectionError"
  using assms by (simp add: paginating_body_def Let_def requests_get_def bind_run_def)

lemma page_suffix_cong: "page s' = page s \<Longrightarrow> page_suffix s' = page_suffix s"
  by (simp add: page_suffix_def)

lemma paginating_body_page:
  assumes res: "paginating_body c p s w u = (Inr (f, s', u'), w')"
  shows "(f = Retry_page \<and> page s' = page s \<and> page_suffix s' = page_suffix s)
       \<or> (f = Next_page \<and> page s' = page s + 1
            \<and> (\<exists>r rs content. responses w = r # rs \<and> status_code r = 200
                  \<and> response_JSON c r = Inr content \<and> truthy content))
       \<or> (f = Stop \<and> page s' = page s)"
proof (cases "responses w")
  case Nil
  from paginating_body_no_response[OF Nil, of c p s u] res show ?thesis by simp
next
  case (Cons r rs)
  show ?thesis
  proof (cases "remaining s")
    case (Some q)
    from paginating_body_returns[OF Cons Some res]
    consider (a) "f = Retry_page" "page s' = page s"
      | (b) "f = Next_page" "page s' = page s + 1" "status_code r = 200"
            "\<exists>content. response_JSON c r = Inr content \<and> truthy content"
      | (c) "f = Stop" "s' = s"
      by blast
    then show ?thesis
    proof cases
      case a
      with page_suffix_cong[of s' s] show ?thesis by simp
    next
      case b
      with Cons show ?thesis by simp
    next
      case c
      then show ?thesis by simp
    qed
  next
    case None
    consider (other) "status_code r \<noteq> 200" "status_code r \<noteq> 403"
      | (limit) "status_code r = 403" | (ok) "status_code r = 200"
      by linarith
    then show ?thesis
    proof cases
      case other
      from paginating_body_other_status[OF Cons other, of c p s u] res show ?thesis by simp
    next
      case ok
      from paginating_body_no_remaining[OF Cons ok None, of c p u] res show ?thesis by simp
    next
      case limit
      let ?w1 = "emit (Request (u @ page_suffix s) headers) (w\<lparr>responses := rs\<rparr>)"
      from limit have "status_code r = 403 \<or> (status_code r = 200 \<and> remaining s = Some 0 \<and> (0::int) \<le> 1)"
        by simp
      from paginating_body_limit[OF Cons this, of c p u] res
      have b: "bind_run (limit_handler s ?w1) (\<lambda>s' w'. (Inr (Retry_page, s', u @ page_suffix s), w'))
                 = (Inr (f, s', u'), w')" by simp
      from bind_run_Inr[OF b] obtain s1 w1 where
        lh: "limit_handler s ?w1 = (Inr s1, w1)"
        and eq: "(Inr (Retry_page, s1, u @ page_suffix s), w1) = (Inr (f, s', u'), w')"
        by blast
      from eq have e: "f = Retry_page" "s' = s1" by simp_all
      from limit_handler_frame[OF lh] e have "f = Retry_page" "page s' = page s" by simp_all
      with page_suffix_cong[of s' s] show ?thesis by simp
    qed
  qed
qed

subsection \<open>The first request of each entry point\<close>

lemma page_suffix_1: "page_suffix (s\<lparr>page := 1\<rparr>) = ''&page=1''"
  by (simp add: page_suffix_def str_int_1)

lemma get_owner_repostries_first_request:
  "prefix (trace w @ [Request (api_url @ ''orgs/'' @ owner s @ ''/repos?per_page=''
                        @ str_int (per_page s) @ ''&page=1'') headers])
     (trace (snd (get_owner_repostries (Suc n) sp s w)))"
  using paginating_first_request[of w
      "api_url @ ''orgs/'' @ owner s @ ''/repos?per_page='' @ str_int (per_page s)"
      "s\<lparr>current_action := Some ''repos'', page := 1\<rparr>" n None
      "path_or sp (''./data/repositories/'' @ owner s @ ''_repos.json'')"]
  by (simp add: get_owner_repostries_def Let_def dict_item_def actions_url_def format_repos
      bind_sum_def bind_run_def lift_run_def page_suffix_def str_int_1 del: paginating.simps)

lemma get_workflows_first_request:
  "prefix (trace w @ [Request (api_url @ ''repos/'' @ owner s @ ''/'' @ repo s
                        @ ''/actions/workflows?per_page='' @ str_int (per_page s)
                        @ ''&page=1'') headers])
     (trace (snd (get_workflows (Suc n) sp s w)))"
  using paginating_first_request[of w
      "api_url @ ''repos/'' @ owner s @ ''/'' @ repo s @ ''/actions/workflows?per_page=''
         @ str_int (per_page s)"
      "s\<lparr>current_action := Some ''workflows'', page := 1\<rparr>" n "Some ''workflows''"
      "path_or sp (''./data/workflows/'' @ owner s @ ''_'' @ repo s @ ''_workflows.json'')"]
  by (simp add: get_workflows_def Let_def dict_item_def actions_url_def format_workflows
      bind_sum_def bind_run_def lift_run_def page_suffix_def str_int_1 del: paginating.simps)

lemma get_runs_first_request:
  "prefix (trace w @ [Request (api_url @ ''repos/'' @ owner s @ ''/'' @ repo s
                        @ ''/actions/runs?per_page'' @ str_int (per_page s)
                        @ ''&exclude_pull_requests='' @ str_bool ex @ ''&page=1'') headers])
     (trace (snd (get_runs (Suc n) ex sp s w)))"
  using paginating_first_request[of w
      "api_url @ ''repos/'' @ owner s @ ''/'' @ repo s @ ''/actions/runs?per_page''
         @ str_int (per_page s) @ ''&exclude_pull_requests='' @ str_bool ex"
      "s\<lparr>current_action := Some ''runs'', page := 1\<rparr>" n "Some ''workflow_runs''"
      "path_or sp (''./data/runs/'' @ owner s @ ''_'' @ repo s @ ''_runs.json'')"]
  by (simp add: get_runs_def Let_def dict_item_def actions_url_def format_runs
      bind_sum_def bind_run_def lift_run_def page_suffix_def str_int_1 del: paginating.simps)

lemma get_jobs_first_request:
  "truthy_id rid \<Longrightarrow>
   prefix (trace w @ [Request (api_url @ ''repos/'' @ owner s @ ''/'' @ repo s
                        @ ''/actions/runs/'' @ str_id rid @ ''/jobs?per_page''
                        @ str_int (per_page s) @ ''&page=1'') headers])
     (trace (snd (get_jobs (Suc n) rid sp s w)))"
  using paginating_first_request[of w
      "api_url @ ''repos/'' @ owner s @ ''/'' @ repo s @ ''/actions/runs/'' @ str_id rid
         @ ''/jobs?per_page'' @ str_int (per_page s)"
      "s\<lparr>current_action := Some ''jobs'', page := 1\<rparr>" n "Some ''jobs''"
      "path_or sp (''./data/jobs/'' @ owner s @ ''_'' @ repo s @ ''_run_'' @ str_id rid
         @ ''_jobs.json'')"]
  by (simp add: get_jobs_def Let_def dict_item_def actions_url_def format_jobs
      bind_sum_def bind_run_def lift_run_def page_suffix_def str_int_1 del: paginating.simps)

lemma get_artifacts_first_request:
  "truthy_id rid \<Longrightarrow>
   prefix (trace w @ [Request (api_url @ ''repos/'' @ owner s @ ''/'' @ repo s
                        @ ''/actions/runs/'' @ str_id rid @ ''/artifacts?per_page''
                        @ str_int (per_page s) @ ''&page=1'') headers])
     (trace (snd (get_artifacts (Suc n) rid sp s w)))"
  using paginating_first_request[of w
      "api_url @ ''repos/'' @ owner s @ ''/'' @ repo s @ ''/actions/runs/'' @ str_id rid
         @ ''/artifacts?per_page'' @ str_int (per_page s)"
      "s\<lparr>current_action := Some ''artifacts'', page := 1\<rparr>" n "Some ''artifacts''"
      "path_or sp (''./data/artifacts/'' @ owner s @ ''_'' @ repo s @ ''_run_'' @ str_id rid
         @ ''_artifacts.json'')"]
  by (simp add: get_artifacts_def Let_def dict_item_def actions_url_def format_artifacts
      bind_sum_def bind_run_def lift_run_def page_suffix_def str_int_1 del: paginating.simps)

subsection \<open>The quota attributes exist from construction on\<close>

lemma get_limit_quota:
  assumes "get_limit v s w = (Inr s', w')"
  shows "(remaining s \<noteq> None \<longrightarrow> remaining s' \<noteq> None)
       \<and> (reset_datetime s \<noteq> None \<longrightarrow> reset_datetime s' \<noteq> None)"
  using assms
  by (auto simp: get_limit_def requests_get_def bind_run_def lift_run_def print_py_def
      split: list.splits if_splits sum.splits prod.splits)

lemma update_limit_variables_quota:
  assumes "update_limit_variables s w = (Inr s', w')"
  shows "remaining s' \<noteq> None \<and> reset_datetime s' \<noteq> None"
  using assms unfolding update_limit_variables_def
  by (auto simp: bind_run_def lift_run_def attr_def split: sum.splits prod.splits option.splits)

lemma limit_handler_quota:
  assumes "limit_handler s w = (Inr s', w')"
  shows "quota_known s'"
proof -
  from assms obtain t where t: "reset_datetime s = Some t"
    by (cases "reset_datetime s")
      (auto simp: limit_handler_def bind_run_def lift_run_def attr_def Let_def)
  define s3 where "s3 = s\<lparr>last_stop_datetime := Some (now w),
      force_to_sleep := Some (timedelta_seconds (t - now w)),
      limit_handler_counter := limit_handler_counter s + 1\<rparr>"
  from assms t obtain w1 s4 w2 where
    u: "update_limit_variables s3 w1 = (Inr s4, w2)"
    and v: "(if verbose s4 then get_limit True s4 w2 else (Inr s4, w2)) = (Inr s', w')"
    unfolding limit_handler_def s3_def
    by (auto simp: Let_def lift_run_def attr_def bind_run_def sleep_py_def
        split: if_splits sum.splits prod.splits)
  from update_limit_variables_frame[OF u] update_limit_variables_quota[OF u]
  have k: "remaining s4 \<noteq> None" "reset_datetime s4 \<noteq> None" "last_stop_datetime s4 \<noteq> None"
    by (simp_all add: s3_def)
  show ?thesis
  proof (cases "verbose s4")
    case True
    with v have g: "get_limit True s4 w2 = (Inr s', w')" by simp
    from get_limit_quota[OF g] get_limit_frame[OF g] k show ?thesis
      by (simp add: quota_known_def)
  next
    case False
    with v k show ?thesis by (simp add: quota_known_def)
  qed
qed

lemma init_quota_known:
  assumes "init a w0 = (Inr s0, w1)"
  shows "quota_known s0 \<and> page s0 = 1 \<and> last_stop_datetime s0 = Some (now w1)"
proof -
  from assms obtain tok s1 wa where
    u: "update_limit_variables
          \<lparr>token = tok, save_mongo = arg_save_mongo a,
           owner = str_of (arg_owner a), repo = str_of (arg_repo a),
           per_page = arg_per_page a, page = 1,
           sleep_betw_requests = arg_sleep_interval a, verbose = arg_verbose a,
           remaining = None, limit = None, reset_datetime = None,
           last_stop_datetime = None, force_to_sleep = None,
           total_requests = 0, current_action = None, limit_handler_counter = 0\<rparr> wa
        = (Inr s1, w1)"
    and s0: "s0 = s1\<lparr>last_stop_datetime := Some (now w1)\<rparr>"
    unfolding init_def
    by (auto simp: Let_def bind_run_def exit_with_def print_py_def
        split: if_splits sum.splits prod.splits)
  from update_limit_variables_frame[OF u] update_limit_variables_quota[OF u] s0
  show ?thesis by (simp add: quota_known_def)
qed

lemma consume_page_quota:
  assumes "consume_page content p u s w = (Inr (f, s', u'), w')" and "quota_known s"
  shows "quota_known s'"
proof -
  define s2 where "s2 = s\<lparr>page := page s + 1, total_requests := total_requests s + 1\<rparr>"
  from assms obtain rem where rem: "remaining s = Some rem"
    by (auto simp: quota_known_def)
  from assms(1) rem obtain w3 where
    fin: "s' = s2\<lparr>remaining := Some (rem - 1)\<rparr>
       \<or> update_limit_variables (s2\<lparr>remaining := Some (rem - 1)\<rparr>) w3 = (Inr s', w')"
    unfolding consume_page_def s2_def
    by (auto simp: Let_def bind_run_def lift_run_def attr_def print_py_def
        split: sum.splits prod.splits if_splits option.splits)
  then show ?thesis
  proof
    assume "s' = s2\<lparr>remaining := Some (rem - 1)\<rparr>"
    with assms(2) show ?thesis by (simp add: quota_known_def s2_def)
  next
    assume u: "update_limit_variables (s2\<lparr>remaining := Some (rem - 1)\<rparr>) w3 = (Inr s', w')"
    from update_limit_variables_frame[OF u] update_limit_variables_quota[OF u] assms(2)
    show ?thesis by (simp add: quota_known_def s2_def)
  qed
qed

lemma paginating_body_quota:
  assumes res: "paginating_body c p s w u = (Inr (f, s', u'), w')" and k: "quota_known s"
  shows "quota_known s'"
proof (cases "responses w")
  case Nil
  from paginating_body_no_response[OF Nil, of c p s u] res show ?thesis by simp
next
  case (Cons r rs)
  from k obtain q where q: "remaining s = Some q" by (auto simp: quota_known_def)
  let ?w1 = "emit (Request (u @ page_suffix s) headers) (w\<lparr>responses := rs\<rparr>)"
  consider (other) "status_code r \<noteq> 200" "status_code r \<noteq> 403"
    | (limit) "status_code r = 403 \<or> (status_code r = 200 \<and> q \<le> 1)"
    | (content) "status_code r = 200" "1 < q"
    by linarith
  then show ?thesis
  proof cases
    case other
    from paginating_body_other_status[OF Cons other, of c p s u] res show ?thesis by simp
  next
    case limit
    from paginating_body_limit'[OF Cons q limit, of c p u] res
    have b: "bind_run (limit_handler s ?w1) (\<lambda>s' w'. (Inr (Retry_page, s', u @ page_suffix s), w'))
               = (Inr (f, s', u'), w')" by simp
    from bind_run_Inr[OF b] obtain s1 w1 where
      lh: "limit_handler s ?w1 = (Inr s1, w1)"
      and eq: "(Inr (Retry_page, s1, u @ page_suffix s), w1) = (Inr (f, s', u'), w')"
      by blast
    from limit_handler_quota[OF lh] eq show ?thesis by simp
  next
    case content
    note body = paginating_body_content[OF Cons content(1) q content(2), of c p u]
    show ?thesis
    proof (cases "response_JSON c r")
      case (Inl e)
      with body res show ?thesis by simp
    next
      case (Inr j)
      show ?thesis
      proof (cases "truthy j")
        case True
        with body Inr res have "consume_page j p (u @ page_suffix s) s ?w1 = (Inr (f, s', u'), w')"
          by simp
        from consume_page_quota[OF this k] show ?thesis .
      next
        case False
        with body Inr res k show ?thesis by simp
      qed
    qed
  qed
qed

lemma paginating_quota:
  "paginating n u c p s w = (Inr s', w') \<Longrightarrow> quota_known s \<Longrightarrow> quota_known s'"
proof (induction n arbitrary: u s w)
  case 0
  then show ?case by simp
next
  case (Suc n)
  show ?case
  proof (cases "paginating_body c p s w u")
    case (Pair a w1)
    show ?thesis
    proof (cases a)
      case (Inl e)
      with Pair Suc.prems show ?thesis by simp
    next
      case (Inr x)
      obtain f s1 u1 where x: "x = (f, s1, u1)" by (cases x)
      with Pair Inr have b: "paginating_body c p s w u = (Inr (f, s1, u1), w1)" by simp
      from paginating_body_quota[OF b Suc.prems(2)] have k1: "quota_known s1" .
      show ?thesis
      proof (cases f)
        case Stop
        with b Suc.prems(1) k1 show ?thesis by simp
      next
        case Retry_page
        with b Suc.prems(1) have "paginating n u1 c p s1 w1 = (Inr s', w')" by simp
        from Suc.IH[OF this k1] show ?thesis .
      next
        case Next_page
        with b Suc.prems(1) have "paginating n u1 c p s1 w1 = (Inr s', w')" by simp
        from Suc.IH[OF this k1] show ?thesis .
      qed
    qed
  qed
qed

subsection \<open>The gate in front of the limit handler\<close>

text \<open>
  Claim C1, as amended. In an iteration of \<open>paginating\<close> whose request is answered and
  whose cached \<open>remaining\<close> is \<open>q\<close>: when the status is 403, or 200 with \<open>q \<le> 1\<close>, the
  iteration is exactly a call of \<open>limit_handler\<close> followed, if the handler returns, by a
  retry with the cursor and the URL of the iteration (403 with \<open>q > 1\<close> and 200 with
  \<open>q \<le> 1\<close> both included); an iteration that returns is a retry, with
  \<open>limit_handler_counter\<close> one higher, exactly in that case, and otherwise leaves the
  counter alone; and a status other than 200 and 403 exits with code 1 whatever \<open>q\<close> is.
\<close>

theorem limit_handler_gate:
  assumes "responses w = r # rs" and "remaining s = Some q"
  shows "(status_code r = 403 \<or> (status_code r = 200 \<and> q \<le> 1) \<longrightarrow>
            paginating_body c p s w u =
              bind_run (limit_handler s
                  (emit (Request (u @ page_suffix s) headers) (w\<lparr>responses := rs\<rparr>)))
                (\<lambda>s' w'. (Inr (Retry_page, s', u @ page_suffix s), w')))
    \<and> (\<forall>f s' u' w'. paginating_body c p s w u = (Inr (f, s', u'), w') \<longrightarrow>
          ((f = Retry_page) = (status_code r = 403 \<or> (status_code r = 200 \<and> q \<le> 1)))
          \<and> limit_handler_counter s' =
              limit_handler_counter s + (if f = Retry_page then 1 else 0))
    \<and> (status_code r \<noteq> 200 \<and> status_code r \<noteq> 403 \<longrightarrow>
          fst (paginating_body c p s w u) = Inl (SystemExit 1))"
proof (intro conjI allI impI)
  assume "status_code r = 403 \<or> (status_code r = 200 \<and> q \<le> 1)"
  from paginating_body_limit'[OF assms this]
  show "paginating_body c p s w u =
      bind_run (limit_handler s
          (emit (Request (u @ page_suffix s) headers) (w\<lparr>responses := rs\<rparr>)))
        (\<lambda>s' w'. (Inr (Retry_page, s', u @ page_suffix s), w'))" .
next
  assume "status_code r \<noteq> 200 \<and> status_code r \<noteq> 403"
  then have "status_code r \<noteq> 200" "status_code r \<noteq> 403" by simp_all
  from paginating_body_other_status[OF assms(1) this]
  show "fst (paginating_body c p s w u) = Inl (SystemExit 1)" by simp
next
  fix f s' u' w'
  assume res: "paginating_body c p s w u = (Inr (f, s', u'), w')"
  from paginating_body_returns[OF assms res]
  consider (a) "f = Retry_page" "status_code r = 403 \<or> (status_code r = 200 \<and> q \<le> 1)"
                "limit_handler_counter s' = limit_handler_counter s + 1"
    | (b) "f \<noteq> Retry_page" "status_code r = 200" "1 < q"
          "limit_handler_counter s' = limit_handler_counter s"
    by auto
  then have "((f = Retry_page) = (status_code r = 403 \<or> (status_code r = 200 \<and> q \<le> 1)))
    \<and> limit_handler_counter s' = limit_handler_counter s + (if f = Retry_page then 1 else 0)"
  proof cases
    case a
    then show ?thesis by simp
  next
    case b
    then show ?thesis by simp
  qed
  then show "(f = Retry_page) = (status_code r = 403 \<or> (status_code r = 200 \<and> q \<le> 1))"
    and "limit_handler_counter s' = limit_handler_counter s + (if f = Retry_page then 1 else 0)"
    by simp_all
qed

text \<open>A 403 with 58 requests left: the handler sleeps until the reset and the page is retried.\<close>

lemma eval_403:
  "paginating_body None repos_path demo_session
     (demo_world [failure_response 403 ''Forbidden'', ok_response (rate_limit_body 60 4700)])
     repos_url
   = (Inr (Retry_page,
           demo_session\<lparr>remaining := Some 58, limit := Some (JNum 60),
             reset_datetime := Some 4702, last_stop_datetime := Some 1000,
             force_to_sleep := Some 3600, limit_handler_counter := 1\<rparr>,
           repos_url @ ''&page=1''),
      (demo_world [])\<lparr>now := 4600,
         trace := [Request (repos_url @ ''&page=1'') headers, Sleep 3600,
                   Request ''https://api.github.com/rate_limit'' headers]\<rparr>)"
  by (simp add: paginating_body_def Let_def requests_get_def bind_run_def lift_run_def
      limit_reached_def bind_sum_def attr_def limit_handler_def timedelta_seconds_def
      sleep_py_def update_limit_variables_def get_limit_def core_fields_def emit_def
      demo_session_def demo_world_def failure_response_def ok_response_def rate_limit_body_def
      page_suffix_def str_int_1 api_url_def)

theorem limit_handler_gate_witness:
  "remaining demo_session = Some 58
   \<and> status_code (failure_response 403 ''Forbidden'') = 403
   \<and> (case fst (paginating_body None repos_path demo_session
          (demo_world [failure_response 403 ''Forbidden'', ok_response (rate_limit_body 60 4700)])
          repos_url) of
         Inl e \<Rightarrow> False
       | Inr (f, s', u') \<Rightarrow> f = Retry_page \<and> limit_handler_counter s' = 1 \<and> page s' = 1)"
proof -
  have w: "responses (demo_world [failure_response 403 ''Forbidden'',
              ok_response (rate_limit_body 60 4700)])
           = failure_response 403 ''Forbidden'' # [ok_response (rate_limit_body 60 4700)]"
    by (simp add: demo_world_def)
  have q: "remaining demo_session = Some 58" by (simp add: demo_session_def)
  have st: "status_code (failure_response 403 ''Forbidden'') = 403"
    by (simp add: failure_response_def)
  from limit_handler_gate[OF w q, of None repos_path repos_url] st eval_403
  show ?thesis using q by (simp add: demo_session_def)
qed

text \<open>
  Claim C1 as stated fails: with one request left a response of status 500 ends the run
  with exit code 1; the limit handler is not called (nothing sleeps, no quota request is
  sent) and the page is not retried.
\<close>

theorem fatal_status_skips_limit_handler:
  "remaining (demo_session\<lparr>remaining := Some 1\<rparr>) = Some 1
   \<and> status_code (failure_response 500 ''Internal Server Error'') = 500
   \<and> fst (paginating_body None repos_path (demo_session\<lparr>remaining := Some 1\<rparr>)
        (demo_world [failure_response 500 ''Internal Server Error'']) repos_url)
       = Inl (SystemExit 1)
   \<and> trace (snd (paginating_body None repos_path (demo_session\<lparr>remaining := Some 1\<rparr>)
        (demo_world [failure_response 500 ''Internal Server Error'']) repos_url))
       = [Request (repos_url @ ''&page=1'') headers, Print ''Error in request.'',
          Print ''500'', Print ''<Response [500]>'']"
  by (simp add: paginating_body_def Let_def requests_get_def bind_run_def print_py_def emit_def
      demo_session_def demo_world_def failure_response_def page_suffix_def str_int_def
      digit_char_def)

subsection \<open>The cursor and the sink calls along a run\<close>

lemma sink_calls_emit:
  "sink_calls (emit e w) = sink_calls w + (if is_sink_call e then 1 else 0)"
  by (simp add: sink_calls_def emit_def)

lemma sink_calls_responses [simp]: "sink_calls (w\<lparr>responses := rs\<rparr>) = sink_calls w"
  by (simp add: sink_calls_def)

lemma sink_calls_now [simp]: "sink_calls (w\<lparr>now := t\<rparr>) = sink_calls w"
  by (simp add: sink_calls_def)

lemma bind_run_sink_calls:
  assumes "sink_calls (snd m) = k"
    and "\<And>x w1. sink_calls (snd (f x w1)) = sink_calls w1"
  shows "sink_calls (snd (bind_run m f)) = k"
proof (cases m)
  case (Pair a w1)
  with assms show ?thesis by (cases a) (simp_all add: bind_run_def)
qed

lemma lift_run_sink_calls: "sink_calls (snd (lift_run m w)) = sink_calls w"
  by (simp add: lift_run_def)

lemma print_py_sink_calls: "sink_calls (snd (print_py l w)) = sink_calls w"
  by (simp add: print_py_def sink_calls_emit)

lemma sleep_py_sink_calls: "sink_calls (snd (sleep_py k w)) = sink_calls w"
  by (simp add: sleep_py_def sink_calls_emit)

lemma requests_get_sink_calls: "sink_calls (snd (requests_get url h w)) = sink_calls w"
  by (simp add: requests_get_def sink_calls_emit split: list.splits)

lemma get_limit_sink_calls: "sink_calls (snd (get_limit v s w)) = sink_calls w"
  unfolding get_limit_def
  by (intro bind_run_sink_calls requests_get_sink_calls)
     (auto intro!: bind_run_sink_calls lift_run_sink_calls print_py_sink_calls split: prod.splits)

lemma update_limit_variables_sink_calls:
  "sink_calls (snd (update_limit_variables s w)) = sink_calls w"
  unfolding update_limit_variables_def
  by (intro bind_run_sink_calls get_limit_sink_calls lift_run_sink_calls) simp

lemma limit_handler_sink_calls: "sink_calls (snd (limit_handler s w)) = sink_calls w"
  unfolding limit_handler_def Let_def
  by (intro bind_run_sink_calls lift_run_sink_calls sleep_py_sink_calls
        update_limit_variables_sink_calls)
     (auto intro: get_limit_sink_calls)

lemma save_JSON_sink_calls: "sink_calls (snd (save_JSON j p s w)) = sink_calls w"
  by (simp add: save_JSON_def write_json_def sink_calls_emit Let_def)

lemma consume_page_sink_calls:
  assumes "consume_page content p u s w = (Inr x, w')"
  shows "sink_calls w' = sink_calls w + 1"
proof -
  from assms obtain f where f: "save_mongo s = Some f" "f content (current_action s) = None"
    by (auto simp: consume_page_def call_save_mongo_def bind_run_def
        split: option.splits)
  let ?w1 = "emit (Sink_call content (current_action s)) w"
  have "consume_page content p u s w =
    bind_run (save_JSON content p s ?w1) (\<lambda>_ w.
       let github_url = take (length u - length (page_suffix s)) u;
           s = s\<lparr>page := page s + 1\<rparr>
       in
       bind_run (sleep_py (sleep_betw_requests s) w) (\<lambda>_ w.
         let s = s\<lparr>total_requests := total_requests s + 1\<rparr> in
         bind_run (lift_run (attr (remaining s)) w) (\<lambda>rem w.
           let s = s\<lparr>remaining := Some (rem - 1)\<rparr> in
           bind_run (print_py (''Reamining: '' @ str_int (rem - 1)) w) (\<lambda>_ w.
           bind_run (lift_run (attr (last_stop_datetime s)) w) (\<lambda>last_stop w.
             if now w - 3600 \<ge> last_stop then
               bind_run (update_limit_variables s w) (\<lambda>s w. (Inr (Next_page, s, github_url), w))
             else (Inr (Next_page, s, github_url), w))))))"
    using f by (simp add: consume_page_def call_save_mongo_def bind_run_def)
  also have "sink_calls (snd \<dots>) = sink_calls ?w1"
    unfolding Let_def
    by (intro bind_run_sink_calls save_JSON_sink_calls sleep_py_sink_calls
          lift_run_sink_calls print_py_sink_calls)
       (auto intro!: bind_run_sink_calls update_limit_variables_sink_calls)
  finally have "sink_calls (snd (consume_page content p u s w)) = sink_calls ?w1" .
  with assms show ?thesis by (simp add: sink_calls_emit)
qed


lemma paginating_body_step:
  assumes res: "paginating_body c p s w u = (Inr (f, s', u'), w')"
  shows "(f = Next_page \<longrightarrow> page s' = page s + 1 \<and> sink_calls w' = sink_calls w + 1 \<and> u' = u)
       \<and> (f \<noteq> Next_page \<longrightarrow> page s' = page s \<and> sink_calls w' = sink_calls w
                            \<and> u' = u @ page_suffix s)"
proof (cases "responses w")
  case Nil
  from paginating_body_no_response[OF Nil, of c p s u] res show ?thesis by simp
next
  case (Cons r rs)
  let ?w1 = "emit (Request (u @ page_suffix s) headers) (w\<lparr>responses := rs\<rparr>)"
  have w1: "sink_calls ?w1 = sink_calls w" by (simp add: sink_calls_emit)
  have lim: ?thesis
    if b: "bind_run (limit_handler s ?w1) (\<lambda>s' w'. (Inr (Retry_page, s', u @ page_suffix s), w'))
               = (Inr (f, s', u'), w')"
  proof -
    from bind_run_Inr[OF b] obtain s1 wa where
      lh: "limit_handler s ?w1 = (Inr s1, wa)"
      and eq: "(Inr (Retry_page, s1, u @ page_suffix s), wa) = (Inr (f, s', u'), w')"
      by blast
    from limit_handler_sink_calls[of s ?w1] lh have "sink_calls wa = sink_calls ?w1" by simp
    with limit_handler_frame[OF lh] eq w1 show ?thesis by auto
  qed
  consider (other) "status_code r \<noteq> 200" "status_code r \<noteq> 403"
    | (forbidden) "status_code r = 403" | (ok) "status_code r = 200"
    by linarith
  then show ?thesis
  proof cases
    case other
    from paginating_body_other_status[OF Cons other, of c p s u] res show ?thesis by simp
  next
    case forbidden
    then have "status_code r = 403 \<or> (status_code r = 200 \<and> remaining s = Some 0 \<and> (0::int) \<le> 1)"
      by simp
    from paginating_body_limit[OF Cons this, of c p u] res show ?thesis by (intro lim) simp
  next
    case ok
    show ?thesis
    proof (cases "remaining s")
      case None
      from paginating_body_no_remaining[OF Cons ok None, of c p u] res show ?thesis by simp
    next
      case (Some q)
      show ?thesis
      proof (cases "q \<le> 1")
        case True
        with ok have "status_code r = 403 \<or> (status_code r = 200 \<and> q \<le> 1)" by simp
        from paginating_body_limit'[OF Cons Some this, of c p u] res show ?thesis
          by (intro lim) simp
      next
        case False
        then have q: "1 < q" by simp
        note body = paginating_body_content[OF Cons ok Some q, of c p u]
        show ?thesis
        proof (cases "response_JSON c r")
          case (Inl e)
          with body res show ?thesis by simp
        next
          case (Inr j)
          show ?thesis
          proof (cases "truthy j")
            case True
            with body Inr res
            have cp: "consume_page j p (u @ page_suffix s) s ?w1 = (Inr (f, s', u'), w')"
              by simp
            from consume_page_frame[OF cp] consume_page_sink_calls[OF cp] w1
            show ?thesis by simp
          next
            case nt: False
            with body Inr res w1 show ?thesis by auto
          qed
        qed
      qed
    qed
  qed
qed

lemma paginating_cursor:
  "paginating n u c p s w = (Inr s', w') \<Longrightarrow>
   page s' = page s + (sink_calls w' - sink_calls w)"
proof (induction n arbitrary: u s w)
  case 0
  then show ?case by simp
next
  case (Suc n)
  show ?case
  proof (cases "paginating_body c p s w u")
    case (Pair a w1)
    show ?thesis
    proof (cases a)
      case (Inl e)
      with Pair Suc.prems show ?thesis by simp
    next
      case (Inr x)
      obtain f s1 u1 where x: "x = (f, s1, u1)" by (cases x)
      with Pair Inr have b: "paginating_body c p s w u = (Inr (f, s1, u1), w1)" by simp
      note st = paginating_body_step[OF b]
      show ?thesis
      proof (cases f)
        case Stop
        with b Suc.prems st show ?thesis by simp
      next
        case Retry_page
        with b Suc.prems have "paginating n u1 c p s1 w1 = (Inr s', w')" by simp
        from Suc.IH[OF this] st Retry_page show ?thesis by simp
      next
        case Next_page
        with b Suc.prems have "paginating n u1 c p s1 w1 = (Inr s', w')" by simp
        from Suc.IH[OF this] st Next_page show ?thesis by simp
      qed
    qed
  qed
qed

lemma paginating_continues:
  assumes b: "paginating_body c p s w u = (Inr (f, s1, u1), w1)"
  shows "f = Next_page \<Longrightarrow>
           prefix (trace w1 @ [Request (u @ ''&page='' @ str_int (page s + 1)) headers])
             (trace (snd (paginating (Suc (Suc n)) u c p s w)))"
    and "f = Retry_page \<Longrightarrow>
           prefix (trace w1 @ [Request (u @ page_suffix s @ page_suffix s) headers])
             (trace (snd (paginating (Suc (Suc n)) u c p s w)))"
proof -
  note st = paginating_body_step[OF b]
  have nx: "paginating (Suc (Suc n)) u c p s w = paginating (Suc n) u1 c p s1 w1"
    if "f \<noteq> Stop"
    using b that by (cases f) (simp_all del: paginating.simps(2) add: paginating.simps(2)[of "Suc n"])
  show "prefix (trace w1 @ [Request (u @ ''&page='' @ str_int (page s + 1)) headers])
             (trace (snd (paginating (Suc (Suc n)) u c p s w)))" if "f = Next_page"
    using paginating_first_request[of w1 u1 s1 n c p] nx st that
    by (simp add: page_suffix_def del: paginating.simps)
  show "prefix (trace w1 @ [Request (u @ page_suffix s @ page_suffix s) headers])
             (trace (snd (paginating (Suc (Suc n)) u c p s w)))" if "f = Retry_page"
    using paginating_first_request[of w1 u1 s1 n c p] nx st that page_suffix_cong[of s1 s]
    by (simp del: paginating.simps)
qed


text \<open>An entry point is \<open>paginating\<close> on its URL, from the cursor 1 and the new action.\<close>

lemma entries_reset:
  shows "get_owner_repostries n sp s w =
           paginating n (api_url @ ''orgs/'' @ owner s @ ''/repos?per_page='' @ str_int (per_page s))
             None (path_or sp (''./data/repositories/'' @ owner s @ ''_repos.json''))
             (s\<lparr>current_action := Some ''repos'', page := 1\<rparr>) w"
    and "get_workflows n sp s w =
           paginating n (api_url @ ''repos/'' @ owner s @ ''/'' @ repo s
                           @ ''/actions/workflows?per_page='' @ str_int (per_page s))
             (Some ''workflows'')
             (path_or sp (''./data/workflows/'' @ owner s @ ''_'' @ repo s @ ''_workflows.json''))
             (s\<lparr>current_action := Some ''workflows'', page := 1\<rparr>) w"
    and "get_runs n ex sp s w =
           paginating n (api_url @ ''repos/'' @ owner s @ ''/'' @ repo s
                           @ ''/actions/runs?per_page'' @ str_int (per_page s)
                           @ ''&exclude_pull_requests='' @ str_bool ex)
             (Some ''workflow_runs'')
             (path_or sp (''./data/runs/'' @ owner s @ ''_'' @ repo s @ ''_runs.json''))
             (s\<lparr>current_action := Some ''runs'', page := 1\<rparr>) w"
    and "truthy_id rid \<Longrightarrow> get_jobs n rid sp s w =
           paginating n (api_url @ ''repos/'' @ owner s @ ''/'' @ repo s
                           @ ''/actions/runs/'' @ str_id rid @ ''/jobs?per_page''
                           @ str_int (per_page s))
             (Some ''jobs'')
             (path_or sp (''./data/jobs/'' @ owner s @ ''_'' @ repo s @ ''_run_'' @ str_id rid
                            @ ''_jobs.json''))
             (s\<lparr>current_action := Some ''jobs'', page := 1\<rparr>) w"
    and "truthy_id rid \<Longrightarrow> get_artifacts n rid sp s w =
           paginating n (api_url @ ''repos/'' @ owner s @ ''/'' @ repo s
                           @ ''/actions/runs/'' @ str_id rid @ ''/artifacts?per_page''
                           @ str_int (per_page s))
             (Some ''artifacts'')
             (path_or sp (''./data/artifacts/'' @ owner s @ ''_'' @ repo s @ ''_run_''
                            @ str_id rid @ ''_artifacts.json''))
             (s\<lparr>current_action := Some ''artifacts'', page := 1\<rparr>) w"
    and "\<not> truthy_id rid \<Longrightarrow> fst (get_jobs n rid sp s w) = Inl (SystemExit 1)"
    and "\<not> truthy_id rid \<Longrightarrow> fst (get_artifacts n rid sp s w) = Inl (SystemExit 1)"
  by (simp_all add: get_owner_repostries_def get_workflows_def get_runs_def get_jobs_def
      get_artifacts_def Let_def dict_item_def actions_url_def format_repos format_workflows
      format_runs format_jobs format_artifacts bind_sum_def bind_run_def lift_run_def
      print_py_def del: paginating.simps)

lemma entries_cursor:
  shows "get_owner_repostries n sp s w = (Inr s', w') \<Longrightarrow>
           page s' = 1 + (sink_calls w' - sink_calls w)"
    and "get_workflows n sp s w = (Inr s', w') \<Longrightarrow>
           page s' = 1 + (sink_calls w' - sink_calls w)"
    and "get_runs n ex sp s w = (Inr s', w') \<Longrightarrow>
           page s' = 1 + (sink_calls w' - sink_calls w)"
    and "get_jobs n rid sp s w = (Inr s', w') \<Longrightarrow>
           page s' = 1 + (sink_calls w' - sink_calls w)"
    and "get_artifacts n rid sp s w = (Inr s', w') \<Longrightarrow>
           page s' = 1 + (sink_calls w' - sink_calls w)"
proof -
  have step: "page s' = 1 + (sink_calls w' - sink_calls w)"
    if "paginating n u c p (s\<lparr>current_action := act, page := 1\<rparr>) w = (Inr s', w')"
    for u c p act
    using paginating_cursor[OF that] by simp
  show "get_owner_repostries n sp s w = (Inr s', w') \<Longrightarrow>
           page s' = 1 + (sink_calls w' - sink_calls w)"
    by (rule step[where act = "Some ''repos''"])
       (simp add: get_owner_repostries_def Let_def dict_item_def actions_url_def format_repos
          bind_sum_def bind_run_def lift_run_def)
  show "get_workflows n sp s w = (Inr s', w') \<Longrightarrow>
           page s' = 1 + (sink_calls w' - sink_calls w)"
    by (rule step[where act = "Some ''workflows''"])
       (simp add: get_workflows_def Let_def dict_item_def actions_url_def format_workflows
          bind_sum_def bind_run_def lift_run_def)
  show "get_runs n ex sp s w = (Inr s', w') \<Longrightarrow>
           page s' = 1 + (sink_calls w' - sink_calls w)"
    by (rule step[where act = "Some ''runs''"])
       (simp add: get_runs_def Let_def dict_item_def actions_url_def format_runs
          bind_sum_def bind_run_def lift_run_def)
  show "get_jobs n rid sp s w = (Inr s', w') \<Longrightarrow>
           page s' = 1 + (sink_calls w' - sink_calls w)"
    by (rule step[where act = "Some ''jobs''"])
       (simp add: get_jobs_def Let_def dict_item_def actions_url_def format_jobs
          bind_sum_def bind_run_def lift_run_def print_py_def split: if_splits)
  show "get_artifacts n rid sp s w = (Inr s', w') \<Longrightarrow>
           page s' = 1 + (sink_calls w' - sink_calls w)"
    by (rule step[where act = "Some ''artifacts''"])
       (simp add: get_artifacts_def Let_def dict_item_def actions_url_def format_artifacts
          bind_sum_def bind_run_def lift_run_def print_py_def split: if_splits)
qed

subsection \<open>An empty page ends the loop\<close>

lemma paginating_stops:
  assumes "responses w = r # rs" and "status_code r = 200"
    and "remaining s = Some q" and "1 < q"
    and "response_JSON checker r = Inr content" and "\<not> truthy content"
  shows "paginating (Suc n) u checker p s w =
           (Inr s, emit (Request (u @ page_suffix s) headers) (w\<lparr>responses := rs\<rparr>))"
  using paginating_body_content[OF assms(1-4), of checker p u] assms(5,6)
  by simp

text \<open>
  Claim C6, as amended. In an iteration whose response has status 200 while more than one
  request is left, when the parsed body, after \<^verbatim>\<open>.get(checker)\<close> if a checker is set,
  is empty or absent (no checker and an empty body; a checker whose key is missing; a
  checker whose key holds an empty value), \<open>paginating\<close> returns normally whatever number
  of further iterations it is allowed: the instance is unchanged, and the only thing done
  to the world is the page request itself, so there is no sink call, no file write, no
  error and no exit.
\<close>

theorem empty_page_stops:
  assumes "responses w = r # rs" and "status_code r = 200"
    and "remaining s = Some q" and "1 < q"
  shows "(\<forall>content. response_JSON checker r = Inr content \<and> \<not> truthy content \<longrightarrow>
            paginating (Suc n) u checker p s w =
              (Inr s, emit (Request (u @ page_suffix s) headers) (w\<lparr>responses := rs\<rparr>)))
    \<and> (\<forall>j. \<not> truthy_str checker \<and> body r = Some j \<and> \<not> truthy j \<longrightarrow>
            paginating (Suc n) u checker p s w =
              (Inr s, emit (Request (u @ page_suffix s) headers) (w\<lparr>responses := rs\<rparr>)))
    \<and> (\<forall>k kvs. checker = Some k \<and> k \<noteq> [] \<and> body r = Some (JObj kvs)
            \<and> map_of kvs k = None \<longrightarrow>
            paginating (Suc n) u checker p s w =
              (Inr s, emit (Request (u @ page_suffix s) headers) (w\<lparr>responses := rs\<rparr>)))
    \<and> (\<forall>k kvs v. checker = Some k \<and> k \<noteq> [] \<and> body r = Some (JObj kvs)
            \<and> map_of kvs k = Some v \<and> \<not> truthy v \<longrightarrow>
            paginating (Suc n) u checker p s w =
              (Inr s, emit (Request (u @ page_suffix s) headers) (w\<lparr>responses := rs\<rparr>)))"
proof (intro conjI allI impI)
  fix content
  assume "response_JSON checker r = Inr content \<and> \<not> truthy content"
  then show "paginating (Suc n) u checker p s w =
      (Inr s, emit (Request (u @ page_suffix s) headers) (w\<lparr>responses := rs\<rparr>))"
    using paginating_stops[OF assms, of checker content n u p] by simp
next
  fix j
  assume a: "\<not> truthy_str checker \<and> body r = Some j \<and> \<not> truthy j"
  then have "response_JSON checker r = Inr j"
    by (cases checker) (simp_all add: response_JSON_def bind_sum_def)
  with a show "paginating (Suc n) u checker p s w =
      (Inr s, emit (Request (u @ page_suffix s) headers) (w\<lparr>responses := rs\<rparr>))"
    using paginating_stops[OF assms, of checker j n u p] by simp
next
  fix k kvs
  assume "checker = Some k \<and> k \<noteq> [] \<and> body r = Some (JObj kvs) \<and> map_of kvs k = None"
  then have "response_JSON checker r = Inr JNull"
    by (simp add: response_JSON_def bind_sum_def)
  then show "paginating (Suc n) u checker p s w =
      (Inr s, emit (Request (u @ page_suffix s) headers) (w\<lparr>responses := rs\<rparr>))"
    using paginating_stops[OF assms, of checker JNull n u p] by simp
next
  fix k kvs v
  assume a: "checker = Some k \<and> k \<noteq> [] \<and> body r = Some (JObj kvs)
            \<and> map_of kvs k = Some v \<and> \<not> truthy v"
  then have "response_JSON checker r = Inr v"
    by (simp add: response_JSON_def bind_sum_def)
  with a show "paginating (Suc n) u checker p s w =
      (Inr s, emit (Request (u @ page_suffix s) headers) (w\<lparr>responses := rs\<rparr>))"
    using paginating_stops[OF assms, of checker v n u p] by simp
qed

theorem empty_page_stops_witness:
  "paginating (Suc 0) runs_url (Some ''workflow_runs'') runs_path demo_session
     (demo_world [empty_runs_page])
   = (Inr demo_session,
      (demo_world [])\<lparr>trace := [Request (runs_url @ ''&page=1'') headers]\<rparr>)
   \<and> paginating (Suc 0) runs_url (Some ''workflow_runs'') runs_path demo_session
     (demo_world [ok_response (JObj [(''message'', JStr ''none'')])])
   = (Inr demo_session,
      (demo_world [])\<lparr>trace := [Request (runs_url @ ''&page=1'') headers]\<rparr>)
   \<and> paginating (Suc 0) repos_url None repos_path demo_session
     (demo_world [ok_response (JArr [])])
   = (Inr demo_session,
      (demo_world [])\<lparr>trace := [Request (repos_url @ ''&page=1'') headers]\<rparr>)"
  using
    empty_page_stops[of "demo_world [empty_runs_page]" empty_runs_page "[]"
      demo_session 58 "Some ''workflow_runs''" 0 runs_url runs_path]
    empty_page_stops[of
      "demo_world [ok_response (JObj [(''message'', JStr ''none'')])]"
      "ok_response (JObj [(''message'', JStr ''none'')])" "[]"
      demo_session 58 "Some ''workflow_runs''" 0 runs_url runs_path]
    empty_page_stops[of "demo_world [ok_response (JArr [])]" "ok_response (JArr [])" "[]"
      demo_session 58 None 0 repos_url repos_path]
  by (simp add: demo_world_def demo_session_def ok_response_def empty_runs_page_def
      emit_def page_suffix_def str_int_1 del: paginating.simps)

text \<open>
  Claim C6 as stated fails: with one request left, a 200 response whose
  \<^verbatim>\<open>workflow_runs\<close> is empty does not end the loop. The iteration calls the limit
  handler, which sleeps 3600 seconds and refreshes the quota, and the page is requested
  again; the loop stops only at the answer to the retry.
\<close>

theorem empty_page_at_low_quota_is_retried:
  "status_code empty_runs_page = 200
   \<and> response_JSON (Some ''workflow_runs'') empty_runs_page = Inr (JArr [])
   \<and> remaining low_session = Some 1
   \<and> (case paginating_body (Some ''workflow_runs'') runs_path low_session
              (demo_world [empty_runs_page, ok_response (rate_limit_body 60 4700)]) runs_url of
         (Inl e, w') \<Rightarrow> False
       | (Inr (f, s', u'), w') \<Rightarrow>
           f = Retry_page \<and> limit_handler_counter s' = 1
           \<and> trace w' = [Request (runs_url @ ''&page=1'') headers, Sleep 3600,
                          Request ''https://api.github.com/rate_limit'' headers])
   \<and> (case paginating (Suc (Suc 0)) runs_url (Some ''workflow_runs'') runs_path low_session
              (demo_world [empty_runs_page, ok_response (rate_limit_body 60 4700),
                           empty_runs_page]) of
         (Inl e, w') \<Rightarrow> False
       | (Inr s', w') \<Rightarrow>
           now w' = 4600
           \<and> trace w' = [Request (runs_url @ ''&page=1'') headers, Sleep 3600,
                          Request ''https://api.github.com/rate_limit'' headers,
                          Request (runs_url @ ''&page=1&page=1'') headers])"
  by (simp add: low_session_def empty_runs_page_def demo_defs run_defs quota_defs page_defs)

subsection \<open>The sink\<close>

lemma init_save_mongo:
  assumes "init a w0 = (Inr s0, w1)"
  shows "save_mongo s0 = arg_save_mongo a"
proof -
  from assms obtain tok s1 wa wb where
    u: "update_limit_variables
          \<lparr>token = tok, save_mongo = arg_save_mongo a,
           owner = str_of (arg_owner a), repo = str_of (arg_repo a),
           per_page = arg_per_page a, page = 1,
           sleep_betw_requests = arg_sleep_interval a, verbose = arg_verbose a,
           remaining = None, limit = None, reset_datetime = None,
           last_stop_datetime = None, force_to_sleep = None,
           total_requests = 0, current_action = None, limit_handler_counter = 0\<rparr> wa
        = (Inr s1, wb)"
    and s0: "s0 = s1\<lparr>last_stop_datetime := Some (now wb)\<rparr>"
    unfolding init_def
    by (auto simp: Let_def bind_run_def exit_with_def print_py_def
        split: if_splits sum.splits prod.splits)
  from update_limit_variables_frame[OF u] s0 show ?thesis by simp
qed

lemma paginating_no_sink:
  assumes "save_mongo s = None"
    and "responses w = r # rs" and "status_code r = 200"
    and "remaining s = Some q" and "1 < q"
    and "response_JSON checker r = Inr content" and "truthy content"
  shows "paginating (Suc n) u checker p s w =
           (Inl TypeError, emit (Request (u @ page_suffix s) headers) (w\<lparr>responses := rs\<rparr>))"
  using paginating_body_content[OF assms(2-5), of checker p u] assms(1,6,7)
  by (simp add: consume_page_def call_save_mongo_def bind_run_def)

lemma paginating_sink_raises:
  assumes "save_mongo s = Some f" and "f content (current_action s) = Some e"
    and "responses w = r # rs" and "status_code r = 200"
    and "remaining s = Some q" and "1 < q"
    and "response_JSON checker r = Inr content" and "truthy content"
  shows "paginating (Suc n) u checker p s w =
           (Inl e, emit (Sink_call content (current_action s))
                     (emit (Request (u @ page_suffix s) headers) (w\<lparr>responses := rs\<rparr>)))"
  using paginating_body_content[OF assms(3-6), of checker p u] assms(1,2,7,8)
  by (simp add: consume_page_def call_save_mongo_def bind_run_def)

lemma consume_page_sink_first:
  assumes "save_mongo s = Some f"
  shows "prefix (trace w @ [Sink_call content (current_action s)])
           (trace (snd (consume_page content p u s w)))"
proof (cases "f content (current_action s)")
  case (Some e)
  with assms show ?thesis
    by (simp add: consume_page_def call_save_mongo_def bind_run_def emit_def)
next
  case None
  let ?w1 = "emit (Sink_call content (current_action s)) w"
  have "consume_page content p u s w =
    bind_run (save_JSON content p s ?w1) (\<lambda>_ w.
       let github_url = take (length u - length (page_suffix s)) u;
           s = s\<lparr>page := page s + 1\<rparr>
       in
       bind_run (sleep_py (sleep_betw_requests s) w) (\<lambda>_ w.
         let s = s\<lparr>total_requests := total_requests s + 1\<rparr> in
         bind_run (lift_run (attr (remaining s)) w) (\<lambda>rem w.
           let s = s\<lparr>remaining := Some (rem - 1)\<rparr> in
           bind_run (print_py (''Reamining: '' @ str_int (rem - 1)) w) (\<lambda>_ w.
           bind_run (lift_run (attr (last_stop_datetime s)) w) (\<lambda>last_stop w.
             if now w - 3600 \<ge> last_stop then
               bind_run (update_limit_variables s w) (\<lambda>s w. (Inr (Next_page, s, github_url), w))
             else (Inr (Next_page, s, github_url), w))))))"
    using assms None by (simp add: consume_page_def call_save_mongo_def bind_run_def)
  also have "prefix (trace ?w1) (trace (snd \<dots>))"
    unfolding Let_def
    by (intro bind_run_prefix save_JSON_prefix sleep_py_prefix lift_run_prefix print_py_prefix)
       (auto intro!: bind_run_prefix update_limit_variables_prefix)
  finally show ?thesis by (simp add: emit_def)
qed

lemma paginating_sink_first:
  assumes "save_mongo s = Some f"
    and "responses w = r # rs" and "status_code r = 200"
    and "remaining s = Some q" and "1 < q"
    and "response_JSON checker r = Inr content" and "truthy content"
  shows "prefix (trace w @ [Request (u @ page_suffix s) headers,
                            Sink_call content (current_action s)])
           (trace (snd (paginating (Suc n) u checker p s w)))"
proof -
  let ?w1 = "emit (Request (u @ page_suffix s) headers) (w\<lparr>responses := rs\<rparr>)"
  from paginating_body_content[OF assms(2-5), of checker p u] assms(6,7)
  have body: "paginating_body checker p s w u = consume_page content p (u @ page_suffix s) s ?w1"
    by simp
  from consume_page_sink_first[OF assms(1), of ?w1 content p "u @ page_suffix s"]
  have b: "prefix (trace w @ [Request (u @ page_suffix s) headers,
                            Sink_call content (current_action s)])
             (trace (snd (paginating_body checker p s w u)))"
    by (simp add: body emit_def)
  show ?thesis
  proof (cases "paginating_body checker p s w u")
    case (Pair a w')
    with b have w': "prefix (trace w @ [Request (u @ page_suffix s) headers,
                            Sink_call content (current_action s)]) (trace w')" by simp
    show ?thesis
    proof (cases a)
      case (Inl e)
      with Pair w' show ?thesis by simp
    next
      case (Inr x)
      obtain fl s' u' where x: "x = (fl, s', u')" by (cases x)
      from paginating_prefix[of w' n u' checker p s'] w'
      have "prefix (trace w @ [Request (u @ page_suffix s) headers,
                            Sink_call content (current_action s)])
              (trace (snd (paginating n u' checker p s' w')))"
        by (metis prefix_order.trans)
      with Pair Inr x w' show ?thesis by (cases fl) simp_all
    qed
  qed
qed


lemma entries_no_sink:
  assumes "save_mongo s = None"
    and "responses w = r # rs" and "status_code r = 200"
    and "remaining s = Some q" and "1 < q"
    and "truthy content"
  shows "response_JSON None r = Inr content \<Longrightarrow>
           fst (get_owner_repostries (Suc n) sp s w) = Inl TypeError"
    and "response_JSON (Some ''workflows'') r = Inr content \<Longrightarrow>
           fst (get_workflows (Suc n) sp s w) = Inl TypeError"
    and "response_JSON (Some ''workflow_runs'') r = Inr content \<Longrightarrow>
           fst (get_runs (Suc n) ex sp s w) = Inl TypeError"
    and "response_JSON (Some ''jobs'') r = Inr content \<Longrightarrow> truthy_id rid \<Longrightarrow>
           fst (get_jobs (Suc n) rid sp s w) = Inl TypeError"
    and "response_JSON (Some ''artifacts'') r = Inr content \<Longrightarrow> truthy_id rid \<Longrightarrow>
           fst (get_artifacts (Suc n) rid sp s w) = Inl TypeError"
proof -
  have step: "fst (paginating (Suc n) u checker p (s\<lparr>current_action := act, page := 1\<rparr>) w)
                = Inl TypeError"
    if "response_JSON checker r = Inr content" for u checker p act
    using paginating_no_sink[of "s\<lparr>current_action := act, page := 1\<rparr>" w r rs q checker
        content n u p] assms that
    by (simp del: paginating.simps)
  show "response_JSON None r = Inr content \<Longrightarrow>
           fst (get_owner_repostries (Suc n) sp s w) = Inl TypeError"
    using step[of None]
    by (simp add: get_owner_repostries_def Let_def dict_item_def actions_url_def format_repos
        bind_sum_def bind_run_def lift_run_def del: paginating.simps)
  show "response_JSON (Some ''workflows'') r = Inr content \<Longrightarrow>
           fst (get_workflows (Suc n) sp s w) = Inl TypeError"
    using step[of "Some ''workflows''"]
    by (simp add: get_workflows_def Let_def dict_item_def actions_url_def format_workflows
        bind_sum_def bind_run_def lift_run_def del: paginating.simps)
  show "response_JSON (Some ''workflow_runs'') r = Inr content \<Longrightarrow>
           fst (get_runs (Suc n) ex sp s w) = Inl TypeError"
    using step[of "Some ''workflow_runs''"]
    by (simp add: get_runs_def Let_def dict_item_def actions_url_def format_runs
        bind_sum_def bind_run_def lift_run_def del: paginating.simps)
  show "response_JSON (Some ''jobs'') r = Inr content \<Longrightarrow> truthy_id rid \<Longrightarrow>
           fst (get_jobs (Suc n) rid sp s w) = Inl TypeError"
    using step[of "Some ''jobs''"]
    by (simp add: get_jobs_def Let_def dict_item_def actions_url_def format_jobs
        bind_sum_def bind_run_def lift_run_def del: paginating.simps)
  show "response_JSON (Some ''artifacts'') r = Inr content \<Longrightarrow> truthy_id rid \<Longrightarrow>
           fst (get_artifacts (Suc n) rid sp s w) = Inl TypeError"
    using step[of "Some ''artifacts''"]
    by (simp add: get_artifacts_def Let_def dict_item_def actions_url_def format_artifacts
        bind_sum_def bind_run_def lift_run_def del: paginating.simps)
qed

text \<open>
  Claim C10, as amended. In an iteration that receives a non-empty page with status 200
  while more than one request is left, the sink is called with the page and the current
  action right after the page request, before anything else: a present sink is called
  (and what it raises ends the run), and \<^verbatim>\<open>None\<close>, which the constructor stores when no
  \<^verbatim>\<open>save_mongo\<close> is passed (the default), makes the call raise \<^verbatim>\<open>TypeError\<close>, not
  \<^verbatim>\<open>sys.exit\<close>, in \<open>paginating\<close>, in each entry point and in \<open>get_all\<close>.
\<close>

theorem sink_called_on_consumed_page:
  assumes "responses w = r # rs" and "status_code r = 200"
    and "remaining s = Some q" and "1 < q"
    and "response_JSON checker r = Inr content" and "truthy content"
  shows "(\<forall>f. save_mongo s = Some f \<longrightarrow>
            prefix (trace w @ [Request (u @ page_suffix s) headers,
                               Sink_call content (current_action s)])
              (trace (snd (paginating (Suc n) u checker p s w)))
            \<and> (\<forall>e. f content (current_action s) = Some e \<longrightarrow>
                  paginating (Suc n) u checker p s w =
                    (Inl e, emit (Sink_call content (current_action s))
                       (emit (Request (u @ page_suffix s) headers) (w\<lparr>responses := rs\<rparr>)))))
    \<and> (save_mongo s = None \<longrightarrow>
          paginating (Suc n) u checker p s w =
            (Inl TypeError, emit (Request (u @ page_suffix s) headers) (w\<lparr>responses := rs\<rparr>))
          \<and> (checker = None \<longrightarrow>
                fst (get_owner_repostries (Suc n) sp s w) = Inl TypeError
                \<and> fst (get_all (Suc n) runs s w) = Inl TypeError)
          \<and> (checker = Some ''workflows'' \<longrightarrow>
                fst (get_workflows (Suc n) sp s w) = Inl TypeError)
          \<and> (checker = Some ''workflow_runs'' \<longrightarrow>
                fst (get_runs (Suc n) ex sp s w) = Inl TypeError)
          \<and> (checker = Some ''jobs'' \<and> truthy_id rid \<longrightarrow>
                fst (get_jobs (Suc n) rid sp s w) = Inl TypeError)
          \<and> (checker = Some ''artifacts'' \<and> truthy_id rid \<longrightarrow>
                fst (get_artifacts (Suc n) rid sp s w) = Inl TypeError))
    \<and> (\<forall>a w0 s0 w1. init a w0 = (Inr s0, w1) \<longrightarrow> save_mongo s0 = arg_save_mongo a)
    \<and> arg_save_mongo default_args = None"
proof (intro conjI allI impI)
  fix f
  assume f: "save_mongo s = Some f"
  from paginating_sink_first[OF f assms]
  show "prefix (trace w @ [Request (u @ page_suffix s) headers,
                           Sink_call content (current_action s)])
          (trace (snd (paginating (Suc n) u checker p s w)))" .
  fix e
  assume "f content (current_action s) = Some e"
  from paginating_sink_raises[OF f this assms]
  show "paginating (Suc n) u checker p s w =
          (Inl e, emit (Sink_call content (current_action s))
             (emit (Request (u @ page_suffix s) headers) (w\<lparr>responses := rs\<rparr>)))" .
next
  assume none: "save_mongo s = None"
  from paginating_no_sink[OF none assms]
  show "paginating (Suc n) u checker p s w =
          (Inl TypeError, emit (Request (u @ page_suffix s) headers) (w\<lparr>responses := rs\<rparr>))" .
  note e = entries_no_sink[OF none assms(1-4) assms(6)]
  {
    assume c: "checker = None"
    with assms(5) e(1)[of n sp] show "fst (get_owner_repostries (Suc n) sp s w) = Inl TypeError"
      by simp
    from c assms(5) e(1)[of n None]
    have "fst (get_owner_repostries (Suc n) None s w) = Inl TypeError" by simp
    then show "fst (get_all (Suc n) runs s w) = Inl TypeError"
      by (cases "get_owner_repostries (Suc n) None s w") (simp add: get_all_def bind_run_def)
  next
    assume "checker = Some ''workflows''"
    with assms(5) e(2)[of n sp] show "fst (get_workflows (Suc n) sp s w) = Inl TypeError"
      by simp
  next
    assume "checker = Some ''workflow_runs''"
    with assms(5) e(3)[of n ex sp] show "fst (get_runs (Suc n) ex sp s w) = Inl TypeError"
      by simp
  next
    assume "checker = Some ''jobs'' \<and> truthy_id rid"
    with assms(5) e(4)[of rid n sp] show "fst (get_jobs (Suc n) rid sp s w) = Inl TypeError"
      by simp
  next
    assume "checker = Some ''artifacts'' \<and> truthy_id rid"
    with assms(5) e(5)[of rid n sp] show "fst (get_artifacts (Suc n) rid sp s w) = Inl TypeError"
      by simp
  }
next
  fix a w0 s0 w1
  assume "init a w0 = (Inr s0, w1)"
  then show "save_mongo s0 = arg_save_mongo a" by (rule init_save_mongo)
next
  show "arg_save_mongo default_args = None" by (simp add: default_args_def)
qed

lemma eval_init:
  "init demo_args (demo_world [ok_response (rate_limit_body 60 4598)])
     = (Inr (demo_session\<lparr>save_mongo := None\<rparr>),
        (demo_world [])\<lparr>trace := [Request ''https://api.github.com/rate_limit'' headers]\<rparr>)"
  by (simp add: init_def demo_args_def default_args_def demo_world_def demo_session_def
      ok_response_def rate_limit_body_def str_of_def bind_run_def lift_run_def
      update_limit_variables_def get_limit_def requests_get_def core_fields_def bind_sum_def
      attr_def emit_def api_url_def)


theorem sink_called_on_consumed_page_witness:
  "prefix [Request (repos_url @ ''&page=1'') headers, Sink_call (JArr [JNum 7]) None]
     (trace (snd (paginating (Suc 0) repos_url None repos_path demo_session
                    (demo_world [ok_response (JArr [JNum 7])]))))
   \<and> paginating (Suc 0) repos_url None repos_path
         (demo_session\<lparr>save_mongo := Some refusing_sink\<rparr>)
         (demo_world [ok_response (JArr [JNum 7])])
       = (Inl ValueError,
          (demo_world [])\<lparr>trace := [Request (repos_url @ ''&page=1'') headers,
                                      Sink_call (JArr [JNum 7]) None]\<rparr>)
   \<and> paginating (Suc 0) repos_url None repos_path (demo_session\<lparr>save_mongo := None\<rparr>)
         (demo_world [ok_response (JArr [JNum 7])])
       = (Inl TypeError, (demo_world [])\<lparr>trace := [Request (repos_url @ ''&page=1'') headers]\<rparr>)
   \<and> fst (get_all (Suc 0) None (demo_session\<lparr>save_mongo := None\<rparr>)
         (demo_world [ok_response (JArr [JNum 7])])) = Inl TypeError
   \<and> arg_save_mongo demo_args = None
   \<and> fst (init demo_args (demo_world [ok_response (rate_limit_body 60 4598)]))
       = Inr (demo_session\<lparr>save_mongo := None\<rparr>)"
proof -
  have w: "responses (demo_world [ok_response (JArr [JNum 7])]) = ok_response (JArr [JNum 7]) # []"
    by (simp add: demo_world_def)
  have st: "status_code (ok_response (JArr [JNum 7])) = 200" by (simp add: ok_response_def)
  have q: "remaining (demo_session\<lparr>save_mongo := sk\<rparr>) = Some 58" "(1::int) < 58" for sk
    by (simp_all add: demo_session_def)
  have q0: "remaining demo_session = Some 58" by (simp add: demo_session_def)
  have j: "response_JSON None (ok_response (JArr [JNum 7])) = Inr (JArr [JNum 7])"
    "truthy (JArr [JNum 7])"
    by (simp_all add: response_JSON_def ok_response_def bind_sum_def)
  note present = sink_called_on_consumed_page[OF w st q0 q(2) j,
      of repos_url 0 repos_path None None False None]
  note refusing = sink_called_on_consumed_page[OF w st q(1)[of "Some refusing_sink"] q(2) j,
      of repos_url 0 repos_path None None False None]
  note absent = sink_called_on_consumed_page[OF w st q(1)[of None] q(2) j,
      of repos_url 0 repos_path None None False None]
  have a: "arg_save_mongo demo_args = None" by (simp add: demo_args_def default_args_def)
  from present have "prefix [Request (repos_url @ ''&page=1'') headers, Sink_call (JArr [JNum 7]) None]
     (trace (snd (paginating (Suc 0) repos_url None repos_path demo_session
                    (demo_world [ok_response (JArr [JNum 7])]))))"
    by (simp add: demo_world_def demo_session_def page_suffix_def str_int_1 del: paginating.simps)
  moreover from refusing have "paginating (Suc 0) repos_url None repos_path
         (demo_session\<lparr>save_mongo := Some refusing_sink\<rparr>)
         (demo_world [ok_response (JArr [JNum 7])])
       = (Inl ValueError,
          (demo_world [])\<lparr>trace := [Request (repos_url @ ''&page=1'') headers,
                                      Sink_call (JArr [JNum 7]) None]\<rparr>)"
    by (simp add: demo_world_def demo_session_def page_suffix_def str_int_1 emit_def
        refusing_sink_def del: paginating.simps)
  moreover from absent have "paginating (Suc 0) repos_url None repos_path
         (demo_session\<lparr>save_mongo := None\<rparr>) (demo_world [ok_response (JArr [JNum 7])])
       = (Inl TypeError, (demo_world [])\<lparr>trace := [Request (repos_url @ ''&page=1'') headers]\<rparr>)"
    and "fst (get_all (Suc 0) None (demo_session\<lparr>save_mongo := None\<rparr>)
         (demo_world [ok_response (JArr [JNum 7])])) = Inl TypeError"
    by (simp_all add: demo_world_def demo_session_def page_suffix_def str_int_1 emit_def
        del: paginating.simps)
  ultimately show ?thesis using a eval_init by simp
qed

text \<open>
  Claim C10 as stated fails: an instance built without \<^verbatim>\<open>save_mongo\<close> on a quota of 3
  has one request left after the margin, so its first non-empty page goes to the limit
  handler and is retried; nothing is called. When the retry is answered with status 500
  the fetch ends with exit code 1 and the missing sink is never reached.
\<close>

theorem low_quota_instance_suspends_before_the_sink:
  "arg_save_mongo demo_args = None
   \<and> (case init demo_args low_quota_world of
         (Inl e, w) \<Rightarrow> False
       | (Inr s, w) \<Rightarrow>
           save_mongo s = None \<and> remaining s = Some 1
           \<and> (case paginating_body None repos_path s
                      (w\<lparr>responses := [ok_response (JArr [JNum 7]),
                                        ok_response (rate_limit_body 60 4700)]\<rparr>) repos_url of
                 (Inl e, w') \<Rightarrow> False
               | (Inr (f, s', u'), w') \<Rightarrow>
                   f = Retry_page
                   \<and> trace w' = [Request ''https://api.github.com/rate_limit'' headers,
                                  Request (repos_url @ ''&page=1'') headers, Sleep 3600,
                                  Request ''https://api.github.com/rate_limit'' headers])
           \<and> (case get_owner_repostries (Suc (Suc 0)) None s
                      (w\<lparr>responses := [ok_response (JArr [JNum 7]),
                                        ok_response (rate_limit_body 60 4700),
                                        failure_response 500 ''Internal Server Error'']\<rparr>) of
                 (Inl e, w') \<Rightarrow>
                   e = SystemExit 1
                   \<and> trace w' = [Request ''https://api.github.com/rate_limit'' headers,
                                  Request (repos_url @ ''&page=1'') headers, Sleep 3600,
                                  Request ''https://api.github.com/rate_limit'' headers,
                                  Request (repos_url @ ''&page=1&page=1'') headers,
                                  Print ''Error in request.'', Print ''500'',
                                  Print ''<Response [500]>'']
               | (Inr s', w') \<Rightarrow> False))"
  by (simp add: low_quota_world_def demo_defs run_defs quota_defs page_defs entry_defs
      init_def str_of_def)

subsection \<open>The cursor\<close>

text \<open>
  Claim C2, as amended. An iteration of \<open>paginating\<close> that returns is a retry after the
  limit handler, which leaves \<open>page\<close> (and the \<^verbatim>\<open>&page=\<close> text the retry appends) as it
  was; a consumed page, which adds exactly 1 and happens only on a 200 response with
  non-empty content; or the stop, which leaves \<open>page\<close> as it was. A 200 response with
  non-empty content advances the cursor by 1 when more than one request is left, and
  leaves it unchanged, as a retry, when at most one is left. The loop goes on from the
  state the iteration leaves: after a consumed page its next request is for \<open>page + 1\<close>,
  after a retry it carries the same page suffix again. Over a whole run that returns,
  the cursor has advanced by the number of pages handed to the sink. Each entry point
  resets the cursor: it is \<open>paginating\<close> started with \<open>page = 1\<close> and the new action, its
  first request is for \<^verbatim>\<open>page=1\<close> whatever \<open>page\<close> was, and when it returns the cursor is
  1 plus the number of pages it consumed.
\<close>

theorem cursor_discipline:
  "(\<forall>f s' u' w'. paginating_body c p s w u = (Inr (f, s', u'), w') \<longrightarrow>
        (f = Retry_page \<and> page s' = page s \<and> page_suffix s' = page_suffix s)
      \<or> (f = Next_page \<and> page s' = page s + 1
           \<and> (\<exists>r rs content. responses w = r # rs \<and> status_code r = 200
                 \<and> response_JSON c r = Inr content \<and> truthy content))
      \<or> (f = Stop \<and> page s' = page s))
   \<and> (\<forall>r rs q content f s' u' w'.
         responses w = r # rs \<and> status_code r = 200 \<and> remaining s = Some q \<and> 1 < q
         \<and> response_JSON c r = Inr content \<and> truthy content
         \<and> paginating_body c p s w u = (Inr (f, s', u'), w')
         \<longrightarrow> f = Next_page \<and> page s' = page s + 1)
   \<and> (\<forall>r rs q f s' u' w'.
         responses w = r # rs \<and> status_code r = 200 \<and> remaining s = Some q \<and> q \<le> 1
         \<and> paginating_body c p s w u = (Inr (f, s', u'), w')
         \<longrightarrow> f = Retry_page \<and> page s' = page s)
   \<and> (\<forall>s1 u1 w1. paginating_body c p s w u = (Inr (Next_page, s1, u1), w1) \<longrightarrow>
         prefix (trace w1 @ [Request (u @ ''&page='' @ str_int (page s + 1)) headers])
           (trace (snd (paginating (Suc (Suc n)) u c p s w))))
   \<and> (\<forall>s1 u1 w1. paginating_body c p s w u = (Inr (Retry_page, s1, u1), w1) \<longrightarrow>
         prefix (trace w1 @ [Request (u @ page_suffix s @ page_suffix s) headers])
           (trace (snd (paginating (Suc (Suc n)) u c p s w))))
   \<and> (\<forall>s' w'. paginating m u c p s w = (Inr s', w') \<longrightarrow>
         page s' = page s + (sink_calls w' - sink_calls w))
   \<and> prefix (trace w @ [Request (api_url @ ''orgs/'' @ owner s @ ''/repos?per_page=''
                            @ str_int (per_page s) @ ''&page=1'') headers])
        (trace (snd (get_owner_repostries (Suc n) sp s w)))
   \<and> prefix (trace w @ [Request (api_url @ ''repos/'' @ owner s @ ''/'' @ repo s
                            @ ''/actions/workflows?per_page='' @ str_int (per_page s)
                            @ ''&page=1'') headers])
        (trace (snd (get_workflows (Suc n) sp s w)))
   \<and> prefix (trace w @ [Request (api_url @ ''repos/'' @ owner s @ ''/'' @ repo s
                            @ ''/actions/runs?per_page'' @ str_int (per_page s)
                            @ ''&exclude_pull_requests='' @ str_bool ex @ ''&page=1'') headers])
        (trace (snd (get_runs (Suc n) ex sp s w)))
   \<and> (truthy_id rid \<longrightarrow>
        prefix (trace w @ [Request (api_url @ ''repos/'' @ owner s @ ''/'' @ repo s
                            @ ''/actions/runs/'' @ str_id rid @ ''/jobs?per_page''
                            @ str_int (per_page s) @ ''&page=1'') headers])
          (trace (snd (get_jobs (Suc n) rid sp s w))))
   \<and> (truthy_id rid \<longrightarrow>
        prefix (trace w @ [Request (api_url @ ''repos/'' @ owner s @ ''/'' @ repo s
                            @ ''/actions/runs/'' @ str_id rid @ ''/artifacts?per_page''
                            @ str_int (per_page s) @ ''&page=1'') headers])
          (trace (snd (get_artifacts (Suc n) rid sp s w))))
   \<and> (\<forall>s' w'. get_owner_repostries m sp s w = (Inr s', w') \<longrightarrow>
         page s' = 1 + (sink_calls w' - sink_calls w))
   \<and> (\<forall>s' w'. get_workflows m sp s w = (Inr s', w') \<longrightarrow>
         page s' = 1 + (sink_calls w' - sink_calls w))
   \<and> (\<forall>s' w'. get_runs m ex sp s w = (Inr s', w') \<longrightarrow>
         page s' = 1 + (sink_calls w' - sink_calls w))
   \<and> (\<forall>s' w'. get_jobs m rid sp s w = (Inr s', w') \<longrightarrow>
         page s' = 1 + (sink_calls w' - sink_calls w))
   \<and> (\<forall>s' w'. get_artifacts m rid sp s w = (Inr s', w') \<longrightarrow>
         page s' = 1 + (sink_calls w' - sink_calls w))
   \<and> get_owner_repostries m sp s w =
         paginating m (api_url @ ''orgs/'' @ owner s @ ''/repos?per_page='' @ str_int (per_page s))
           None (path_or sp (''./data/repositories/'' @ owner s @ ''_repos.json''))
           (s\<lparr>current_action := Some ''repos'', page := 1\<rparr>) w
   \<and> get_workflows m sp s w =
         paginating m (api_url @ ''repos/'' @ owner s @ ''/'' @ repo s
                         @ ''/actions/workflows?per_page='' @ str_int (per_page s))
           (Some ''workflows'')
           (path_or sp (''./data/workflows/'' @ owner s @ ''_'' @ repo s @ ''_workflows.json''))
           (s\<lparr>current_action := Some ''workflows'', page := 1\<rparr>) w
   \<and> get_runs m ex sp s w =
         paginating m (api_url @ ''repos/'' @ owner s @ ''/'' @ repo s
                         @ ''/actions/runs?per_page'' @ str_int (per_page s)
                         @ ''&exclude_pull_requests='' @ str_bool ex)
           (Some ''workflow_runs'')
           (path_or sp (''./data/runs/'' @ owner s @ ''_'' @ repo s @ ''_runs.json''))
           (s\<lparr>current_action := Some ''runs'', page := 1\<rparr>) w
   \<and> (truthy_id rid \<longrightarrow>
       get_jobs m rid sp s w =
         paginating m (api_url @ ''repos/'' @ owner s @ ''/'' @ repo s
                         @ ''/actions/runs/'' @ str_id rid @ ''/jobs?per_page''
                         @ str_int (per_page s))
           (Some ''jobs'')
           (path_or sp (''./data/jobs/'' @ owner s @ ''_'' @ repo s @ ''_run_'' @ str_id rid
                          @ ''_jobs.json''))
           (s\<lparr>current_action := Some ''jobs'', page := 1\<rparr>) w)
   \<and> (truthy_id rid \<longrightarrow>
       get_artifacts m rid sp s w =
         paginating m (api_url @ ''repos/'' @ owner s @ ''/'' @ repo s
                         @ ''/actions/runs/'' @ str_id rid @ ''/artifacts?per_page''
                         @ str_int (per_page s))
           (Some ''artifacts'')
           (path_or sp (''./data/artifacts/'' @ owner s @ ''_'' @ repo s @ ''_run_''
                          @ str_id rid @ ''_artifacts.json''))
           (s\<lparr>current_action := Some ''artifacts'', page := 1\<rparr>) w)"
proof (intro conjI allI impI)
  show "get_owner_repostries m sp s w =
         paginating m (api_url @ ''orgs/'' @ owner s @ ''/repos?per_page='' @ str_int (per_page s))
           None (path_or sp (''./data/repositories/'' @ owner s @ ''_repos.json''))
           (s\<lparr>current_action := Some ''repos'', page := 1\<rparr>) w"
    by (rule entries_reset)
next
  show "get_workflows m sp s w =
         paginating m (api_url @ ''repos/'' @ owner s @ ''/'' @ repo s
                         @ ''/actions/workflows?per_page='' @ str_int (per_page s))
           (Some ''workflows'')
           (path_or sp (''./data/workflows/'' @ owner s @ ''_'' @ repo s @ ''_workflows.json''))
           (s\<lparr>current_action := Some ''workflows'', page := 1\<rparr>) w"
    by (rule entries_reset)
next
  show "get_runs m ex sp s w =
         paginating m (api_url @ ''repos/'' @ owner s @ ''/'' @ repo s
                         @ ''/actions/runs?per_page'' @ str_int (per_page s)
                         @ ''&exclude_pull_requests='' @ str_bool ex)
           (Some ''workflow_runs'')
           (path_or sp (''./data/runs/'' @ owner s @ ''_'' @ repo s @ ''_runs.json''))
           (s\<lparr>current_action := Some ''runs'', page := 1\<rparr>) w"
    by (rule entries_reset)
next
  assume "truthy_id rid"
  then show "get_jobs m rid sp s w =
         paginating m (api_url @ ''repos/'' @ owner s @ ''/'' @ repo s
                         @ ''/actions/runs/'' @ str_id rid @ ''/jobs?per_page''
                         @ str_int (per_page s))
           (Some ''jobs'')
           (path_or sp (''./data/jobs/'' @ owner s @ ''_'' @ repo s @ ''_run_'' @ str_id rid
                          @ ''_jobs.json''))
           (s\<lparr>current_action := Some ''jobs'', page := 1\<rparr>) w"
    by (rule entries_reset)
next
  assume "truthy_id rid"
  then show "get_artifacts m rid sp s w =
         paginating m (api_url @ ''repos/'' @ owner s @ ''/'' @ repo s
                         @ ''/actions/runs/'' @ str_id rid @ ''/artifacts?per_page''
                         @ str_int (per_page s))
           (Some ''artifacts'')
           (path_or sp (''./data/artifacts/'' @ owner s @ ''_'' @ repo s @ ''_run_''
                          @ str_id rid @ ''_artifacts.json''))
           (s\<lparr>current_action := Some ''artifacts'', page := 1\<rparr>) w"
    by (rule entries_reset)
next
  fix f s' u' w'
  assume "paginating_body c p s w u = (Inr (f, s', u'), w')"
  from paginating_body_page[OF this]
  show "(f = Retry_page \<and> page s' = page s \<and> page_suffix s' = page_suffix s)
      \<or> (f = Next_page \<and> page s' = page s + 1
           \<and> (\<exists>r rs content. responses w = r # rs \<and> status_code r = 200
                 \<and> response_JSON c r = Inr content \<and> truthy content))
      \<or> (f = Stop \<and> page s' = page s)" .
next
  fix r rs q content f s' u' w'
  assume a: "responses w = r # rs \<and> status_code r = 200 \<and> remaining s = Some q \<and> 1 < q
         \<and> response_JSON c r = Inr content \<and> truthy content
         \<and> paginating_body c p s w u = (Inr (f, s', u'), w')"
  then have h: "responses w = r # rs" "remaining s = Some q"
    "paginating_body c p s w u = (Inr (f, s', u'), w')"
    and k: "status_code r = 200" "1 < q" "response_JSON c r = Inr content" "truthy content"
    by simp_all
  from paginating_body_returns[OF h] k
  show "f = Next_page" and "page s' = page s + 1" by auto
next
  fix r rs q f s' u' w'
  assume a: "responses w = r # rs \<and> status_code r = 200 \<and> remaining s = Some q \<and> q \<le> 1
         \<and> paginating_body c p s w u = (Inr (f, s', u'), w')"
  then have h: "responses w = r # rs" "remaining s = Some q"
    "paginating_body c p s w u = (Inr (f, s', u'), w')"
    and k: "status_code r = 200" "q \<le> 1"
    by simp_all
  from paginating_body_returns[OF h] k
  show "f = Retry_page" and "page s' = page s" by auto
next
  fix s1 u1 w1
  assume "paginating_body c p s w u = (Inr (Next_page, s1, u1), w1)"
  from paginating_continues(1)[OF this refl]
  show "prefix (trace w1 @ [Request (u @ ''&page='' @ str_int (page s + 1)) headers])
           (trace (snd (paginating (Suc (Suc n)) u c p s w)))" .
next
  fix s1 u1 w1
  assume "paginating_body c p s w u = (Inr (Retry_page, s1, u1), w1)"
  from paginating_continues(2)[OF this refl]
  show "prefix (trace w1 @ [Request (u @ page_suffix s @ page_suffix s) headers])
           (trace (snd (paginating (Suc (Suc n)) u c p s w)))" .
next
  fix s' w'
  assume "paginating m u c p s w = (Inr s', w')"
  then show "page s' = page s + (sink_calls w' - sink_calls w)" by (rule paginating_cursor)
next
  fix s' w'
  assume "get_owner_repostries m sp s w = (Inr s', w')"
  then show "page s' = 1 + (sink_calls w' - sink_calls w)" by (rule entries_cursor)
next
  fix s' w'
  assume "get_workflows m sp s w = (Inr s', w')"
  then show "page s' = 1 + (sink_calls w' - sink_calls w)" by (rule entries_cursor)
next
  fix s' w'
  assume "get_runs m ex sp s w = (Inr s', w')"
  then show "page s' = 1 + (sink_calls w' - sink_calls w)" by (rule entries_cursor)
next
  fix s' w'
  assume "get_jobs m rid sp s w = (Inr s', w')"
  then show "page s' = 1 + (sink_calls w' - sink_calls w)" by (rule entries_cursor)
next
  fix s' w'
  assume "get_artifacts m rid sp s w = (Inr s', w')"
  then show "page s' = 1 + (sink_calls w' - sink_calls w)" by (rule entries_cursor)
qed (simp_all only: get_owner_repostries_first_request get_workflows_first_request
       get_runs_first_request get_jobs_first_request get_artifacts_first_request)


lemma eval_page_7:
  "paginating_body None repos_path (demo_session\<lparr>page := 7\<rparr>)
     (demo_world [ok_response (JArr [JNum 7]), ok_response (JArr [])]) repos_url
   = (Inr (Next_page,
           demo_session\<lparr>page := 8, remaining := Some 57, total_requests := 1\<rparr>, repos_url),
      (demo_world [ok_response (JArr [])])\<lparr>now := 1002,
         trace := [Request (repos_url @ ''&page=7'') headers,
                   Sink_call (JArr [JNum 7]) None,
                   File_write ''./data/repositories/apache_repos_7.json'' (JArr [JNum 7]),
                   Sleep 2, Print ''Reamining: 57'']\<rparr>)"
  by (simp add: demo_defs run_defs page_defs)

lemma eval_repos_run:
  "get_owner_repostries (Suc (Suc 0)) None (demo_session\<lparr>page := 7\<rparr>)
     (demo_world [ok_response (JArr [JNum 7]), ok_response (JArr [])])
   = (Inr (demo_session\<lparr>page := 2, remaining := Some 57, total_requests := 1,
             current_action := Some ''repos''\<rparr>),
      (demo_world [])\<lparr>now := 1002,
         trace := [Request (repos_url @ ''&page=1'') headers,
                   Sink_call (JArr [JNum 7]) (Some ''repos''),
                   File_write ''./data/repositories/apache_repos_1.json'' (JArr [JNum 7]),
                   Sleep 2, Print ''Reamining: 57'',
                   Request (repos_url @ ''&page=2'') headers]\<rparr>)"
  by (simp add: demo_defs run_defs page_defs entry_defs api_url_def)

theorem cursor_discipline_witness:
  "(case fst (paginating_body None repos_path (demo_session\<lparr>page := 7\<rparr>)
               (demo_world [ok_response (JArr [JNum 7]), ok_response (JArr [])]) repos_url) of
      Inl e \<Rightarrow> False
    | Inr (f, s', u') \<Rightarrow> f = Next_page \<and> page s' = 8)
   \<and> prefix [Request (repos_url @ ''&page=7'') headers,
              Sink_call (JArr [JNum 7]) None,
              File_write ''./data/repositories/apache_repos_7.json'' (JArr [JNum 7]),
              Sleep 2, Print ''Reamining: 57'',
              Request (repos_url @ ''&page=8'') headers]
        (trace (snd (paginating (Suc (Suc 0)) repos_url None repos_path
                       (demo_session\<lparr>page := 7\<rparr>)
                       (demo_world [ok_response (JArr [JNum 7]), ok_response (JArr [])]))))
   \<and> (case fst (get_owner_repostries (Suc (Suc 0)) None (demo_session\<lparr>page := 7\<rparr>)
                  (demo_world [ok_response (JArr [JNum 7]), ok_response (JArr [])])) of
         Inl e \<Rightarrow> False
       | Inr s' \<Rightarrow> page s' = 2)
   \<and> prefix [Request ''https://api.github.com/repos/apache/commons-lang/actions/workflows?per_page=100&page=1'' headers]
        (trace (snd (get_workflows (Suc 0) None (demo_session\<lparr>page := 7\<rparr>)
                       (demo_world [ok_response (JArr [JNum 7]), ok_response (JArr [])]))))"
proof -
  note t = cursor_discipline[of None repos_path "demo_session\<lparr>page := 7\<rparr>"
      "demo_world [ok_response (JArr [JNum 7]), ok_response (JArr [])]" repos_url 0
      "Suc (Suc 0)" None False "Some 1"]
  from t eval_page_7
  have a: "prefix ([Request (repos_url @ ''&page=7'') headers,
              Sink_call (JArr [JNum 7]) None,
              File_write ''./data/repositories/apache_repos_7.json'' (JArr [JNum 7]),
              Sleep 2, Print ''Reamining: 57''] @ [Request (repos_url @ ''&page=8'') headers])
        (trace (snd (paginating (Suc (Suc 0)) repos_url None repos_path
                       (demo_session\<lparr>page := 7\<rparr>)
                       (demo_world [ok_response (JArr [JNum 7]), ok_response (JArr [])]))))"
    by (simp add: demo_session_def demo_world_def str_int_def digit_char_def
        del: paginating.simps)
  from t eval_repos_run
  have b: "page (demo_session\<lparr>page := 2, remaining := Some 57, total_requests := 1,
             current_action := Some ''repos''\<rparr>) = 1 + (1 - 0)"
    by (simp add: sink_calls_def demo_world_def del: paginating.simps)
  from t have c: "prefix [Request ''https://api.github.com/repos/apache/commons-lang/actions/workflows?per_page=100&page=1'' headers]
        (trace (snd (get_workflows (Suc 0) None (demo_session\<lparr>page := 7\<rparr>)
                       (demo_world [ok_response (JArr [JNum 7]), ok_response (JArr [])]))))"
    by (simp add: demo_world_def demo_session_def api_url_def str_int_def digit_char_def
        del: paginating.simps)
  from a b c show ?thesis
    by (simp add: eval_page_7 eval_repos_run del: paginating.simps)
qed

text \<open>
  Claim C2 as stated fails: with one request left, an iteration that receives a 200
  response with non-empty content does not advance the cursor; it is sent to the limit
  handler and the page is retried with the cursor still 7.
\<close>

theorem nonempty_page_at_low_quota_keeps_cursor:
  "status_code (ok_response (JArr [JNum 7])) = 200
   \<and> response_JSON None (ok_response (JArr [JNum 7])) = Inr (JArr [JNum 7])
   \<and> truthy (JArr [JNum 7])
   \<and> page (low_session\<lparr>page := 7\<rparr>) = 7
   \<and> remaining (low_session\<lparr>page := 7\<rparr>) = Some 1
   \<and> (case paginating_body None repos_path (low_session\<lparr>page := 7\<rparr>)
              (demo_world [ok_response (JArr [JNum 7]), ok_response (rate_limit_body 60 4700)])
              repos_url of
         (Inl e, w') \<Rightarrow> False
       | (Inr (f, s', u'), w') \<Rightarrow>
           f = Retry_page \<and> page s' = 7
           \<and> trace w' = [Request (repos_url @ ''&page=7'') headers, Sleep 3600,
                          Request ''https://api.github.com/rate_limit'' headers])"
  by (simp add: low_session_def demo_defs run_defs quota_defs page_defs)

section \<open>Runs on concrete inputs\<close>

subsection \<open>The sleep of the limit handler\<close>

text \<open>
  The handler sleeps for \<^verbatim>\<open>(reset_datetime - now).seconds\<close>, the difference modulo one
  day: it is the time left until the reset only when the reset lies less than a day
  ahead.
\<close>

lemma limit_handler_sleep:
  assumes "reset_datetime s = Some t"
  shows "prefix (trace w @ [Sleep ((t - now w) mod 86400)]) (trace (snd (limit_handler s w)))"
proof -
  have nn: "\<not> (t - now w) mod 86400 < 0"
    by (simp add: not_less)
  have "limit_handler s w =
      bind_run (Inr (), emit (Sleep ((t - now w) mod 86400))
                  (w\<lparr>now := now w + (t - now w) mod 86400\<rparr>))
        (\<lambda>_ w'. bind_run (update_limit_variables
              (s\<lparr>last_stop_datetime := Some (now w),
                 force_to_sleep := Some ((t - now w) mod 86400),
                 limit_handler_counter := limit_handler_counter s + 1\<rparr>) w')
           (\<lambda>s w. if verbose s then get_limit True s w else (Inr s, w)))"
    using assms nn
    by (simp add: limit_handler_def Let_def lift_run_def attr_def bind_run_def sleep_py_def
        timedelta_seconds_def)
  also have "prefix (trace w @ [Sleep ((t - now w) mod 86400)]) (trace (snd \<dots>))"
    by (intro bind_run_prefix update_limit_variables_prefix)
       (auto simp: emit_def intro: get_limit_prefix)
  finally show ?thesis .
qed

text \<open>When the reset lies ahead by less than a day this is \<open>max 0 (resetAt - now)\<close>.\<close>

lemma limit_handler_sleep_within_a_day:
  assumes "reset_datetime s = Some t" and "now w \<le> t" and "t - now w < 86400"
  shows "prefix (trace w @ [Sleep (max 0 (t - now w))]) (trace (snd (limit_handler s w)))"
  using limit_handler_sleep[OF assms(1), of w] assms(2,3) by simp

text \<open>
  Claim C3 at a state the code reaches: the reset time lies 5 seconds in the past when
  the handler is called. \<open>max 0 (resetAt - now)\<close> is 0, and the handler sleeps 86395
  seconds before it refreshes the quota.
\<close>

theorem limit_handler_sleeps_a_day_when_reset_has_passed:
  "reset_datetime late_session = Some 995
   \<and> now (demo_world [ok_response (rate_limit_body 60 4600)]) = 1000
   \<and> max 0 (995 - 1000) = (0::int)
   \<and> trace (snd (limit_handler late_session
                    (demo_world [ok_response (rate_limit_body 60 4600)])))
       = [Sleep 86395, Request ''https://api.github.com/rate_limit'' headers]
   \<and> now (snd (limit_handler late_session
                    (demo_world [ok_response (rate_limit_body 60 4600)]))) = 87395"
  by (simp add: late_session_def demo_defs run_defs quota_defs)

text \<open>
  Such a state arises in a run with the default two seconds between requests: the
  constructor reads 5 remaining requests and a reset one second ahead, two pages are
  consumed, and the third request meets the limit after the reset time has passed.
\<close>

lemma reset_passes_during_a_run:
  "(case init sink_args (demo_world [ok_response (rate_limit_body 5 1001)]) of
      (Inl e, w) \<Rightarrow> False
    | (Inr s, w) \<Rightarrow>
        remaining s = Some 3 \<and> reset_datetime s = Some 1003 \<and> sleep_betw_requests s = 2
        \<and> trace (snd (get_owner_repostries 3 None s
              (w\<lparr>responses := [ok_response (JArr [JNum 1]), ok_response (JArr [JNum 2]),
                    ok_response (JArr [JNum 3]), ok_response (rate_limit_body 60 4600)]\<rparr>)))
          = [Request ''https://api.github.com/rate_limit'' headers,
             Request ''https://api.github.com/orgs/apache/repos?per_page=100&page=1'' headers,
             Sink_call (JArr [JNum 1]) (Some ''repos''),
             File_write ''./data/repositories/apache_repos_1.json'' (JArr [JNum 1]),
             Sleep 2, Print ''Reamining: 2'',
             Request ''https://api.github.com/orgs/apache/repos?per_page=100&page=2'' headers,
             Sink_call (JArr [JNum 2]) (Some ''repos''),
             File_write ''./data/repositories/apache_repos_2.json'' (JArr [JNum 2]),
             Sleep 2, Print ''Reamining: 1'',
             Request ''https://api.github.com/orgs/apache/repos?per_page=100&page=3'' headers,
             Sleep 86399,
             Request ''https://api.github.com/rate_limit'' headers])"
  by code_simp

subsection \<open>The URL of a retried request\<close>

text \<open>
  After an iteration that ends in a retry, the cursor and the request counter are as they
  were, and the next request is sent to the URL with the page suffix appended twice.
\<close>

lemma retry_request_url:
  assumes "remaining s = Some q"
    and "paginating_body c p s w u = (Inr (Retry_page, s', u'), w')"
  shows "page s' = page s \<and> total_requests s' = total_requests s
    \<and> prefix (trace w' @ [Request (u @ page_suffix s @ page_suffix s) headers])
         (trace (snd (paginating_body c p s' w' u')))"
proof (cases "responses w")
  case Nil
  from paginating_body_no_response[OF Nil, of c p s u] assms(2) show ?thesis by simp
next
  case (Cons r rs)
  from paginating_body_returns[OF Cons assms]
  have e: "page s' = page s" "total_requests s' = total_requests s" "u' = u @ page_suffix s"
    by simp_all
  from e(1) have "page_suffix s' = page_suffix s" by (rule page_suffix_cong)
  with paginating_body_prefix[of w' u' s' c p] e show ?thesis by simp
qed

text \<open>
  Claim C4 at a 403 on the first page: the cursor and the request counter are as they
  were, but the URL keeps the suffix of the deferred attempt (only the path of a consumed
  page strips it, line 295) and the retry appends a second one.
\<close>

theorem retry_appends_page_suffix_twice:
  "(case paginating (Suc (Suc 0)) repos_url None repos_path demo_session
           (demo_world [failure_response 403 ''Forbidden'',
                        ok_response (rate_limit_body 60 4700), ok_response (JArr [])]) of
      (Inl e, w') \<Rightarrow> False
    | (Inr s', w') \<Rightarrow>
        page s' = page demo_session \<and> total_requests s' = total_requests demo_session
        \<and> trace w' =
            [Request ''https://api.github.com/orgs/apache/repos?per_page=100&page=1'' headers,
             Sleep 3600,
             Request ''https://api.github.com/rate_limit'' headers,
             Request ''https://api.github.com/orgs/apache/repos?per_page=100&page=1&page=1''
               headers])"
  by code_simp

subsection \<open>\<^verbatim>\<open>get_all\<close> and the discovered runs\<close>

text \<open>For a \<^verbatim>\<open>runs_object\<close> that is true, \<open>get_all\<close> is the three fetches and nothing else.\<close>

lemma bind_run_return: "bind_run m (\<lambda>x w. (Inr x, w)) = m"
  by (cases m; cases "fst m") (auto simp: bind_run_def)

lemma get_all_with_runs:
  assumes "is_true r"
  shows "get_all n (Some r) s w =
    bind_run (get_owner_repostries n None s w) (\<lambda>s w.
    bind_run (get_workflows n None s w) (\<lambda>s w. get_runs n False None s w))"
  using assms by (simp add: get_all_def bind_run_return)

text \<open>
  Claim C7 with a non-empty collection of two runs: \<^verbatim>\<open>if not runs_object\<close> is false for
  it, so after repositories, workflows and runs nothing more is requested.
\<close>

theorem get_all_skips_jobs_and_artifacts:
  "is_true discovered_runs \<and> objects discovered_runs = [1511226364, 1514809363]
   \<and> (case get_all (Suc 0) (Some discovered_runs) demo_session
           (demo_world [ok_response (JArr []),
                        ok_response (JObj [(''total_count'', JNum 0), (''workflows'', JArr [])]),
                        ok_response (JObj [(''total_count'', JNum 0), (''workflow_runs'', JArr [])])]) of
      (Inl e, w') \<Rightarrow> False
    | (Inr s', w') \<Rightarrow>
        current_action s' = Some ''runs''
        \<and> trace w' =
            [Request ''https://api.github.com/orgs/apache/repos?per_page=100&page=1'' headers,
             Request ''https://api.github.com/repos/apache/commons-lang/actions/workflows?per_page=100&page=1'' headers,
             Request ''https://api.github.com/repos/apache/commons-lang/actions/runs?per_page100&exclude_pull_requests=False&page=1'' headers])"
  by code_simp

text \<open>With the default \<^verbatim>\<open>runs_object = None\<close> the branch is entered and \<^verbatim>\<open>None.objects()\<close> raises.\<close>

lemma get_all_without_runs_raises:
  "(case fst (get_all (Suc 0) None demo_session
           (demo_world [ok_response (JArr []),
                        ok_response (JObj [(''total_count'', JNum 0), (''workflows'', JArr [])]),
                        ok_response (JObj [(''total_count'', JNum 0), (''workflow_runs'', JArr [])])]))
       of Inl e \<Rightarrow> e = AttributeError | Inr s' \<Rightarrow> False)"
  by code_simp

subsection \<open>The \<^verbatim>\<open>per_page\<close> parameter\<close>

text \<open>
  Claim C8 at page size 100: the templates of runs, jobs and artifacts lack the \<^verbatim>\<open>=\<close>,
  so their URLs contain \<^verbatim>\<open>per_page100\<close> and nowhere \<^verbatim>\<open>per_page=100\<close>.
\<close>

theorem runs_jobs_artifacts_urls_lack_per_page_value:
  "per_page demo_session = 100
   \<and> trace (snd (get_runs (Suc 0) False None demo_session (demo_world [])))
       = [Request ''https://api.github.com/repos/apache/commons-lang/actions/runs?per_page100&exclude_pull_requests=False&page=1'' headers]
   \<and> trace (snd (get_jobs (Suc 0) (Some 1511226364) None demo_session (demo_world [])))
       = [Request ''https://api.github.com/repos/apache/commons-lang/actions/runs/1511226364/jobs?per_page100&page=1'' headers]
   \<and> trace (snd (get_artifacts (Suc 0) (Some 1511226364) None demo_session (demo_world [])))
       = [Request ''https://api.github.com/repos/apache/commons-lang/actions/runs/1511226364/artifacts?per_page100&page=1'' headers]
   \<and> \<not> sublist ''per_page=100''
        ''https://api.github.com/repos/apache/commons-lang/actions/runs?per_page100&exclude_pull_requests=False&page=1''
   \<and> \<not> sublist ''per_page=100''
        ''https://api.github.com/repos/apache/commons-lang/actions/runs/1511226364/jobs?per_page100&page=1''
   \<and> \<not> sublist ''per_page=100''
        ''https://api.github.com/repos/apache/commons-lang/actions/runs/1511226364/artifacts?per_page100&page=1''"
  by (simp add: entry_defs page_defs run_defs demo_defs api_url_def sublist_code)

text \<open>The templates of repositories and workflows have it.\<close>

lemma repos_and_workflows_urls_carry_per_page:
  "trace (snd (get_owner_repostries (Suc 0) None demo_session (demo_world [])))
       = [Request ''https://api.github.com/orgs/apache/repos?per_page=100&page=1'' headers]
   \<and> trace (snd (get_workflows (Suc 0) None demo_session (demo_world [])))
       = [Request ''https://api.github.com/repos/apache/commons-lang/actions/workflows?per_page=100&page=1'' headers]"
  by (simp add: entry_defs page_defs run_defs demo_defs api_url_def)

subsection \<open>The request headers\<close>

text \<open>
  Claim C9 for an instance whose token comes from the environment: the token is loaded,
  and the quota request and the page request carry the \<^verbatim>\<open>Accept\<close> header alone (the
  assignment of \<^verbatim>\<open>Authorization\<close>, line 86, is commented out).
\<close>

theorem requests_carry_no_token:
  "map_of headers ''Authorization'' = None
   \<and> (case init demo_args (demo_world [ok_response (rate_limit_body 60 4598),
          ok_response (JObj [(''total_count'', JNum 0), (''workflows'', JArr [])])]) of
        (Inl e, w) \<Rightarrow> False
      | (Inr s, w) \<Rightarrow>
          token s = JStr ''ghp_demo''
          \<and> trace (snd (get_workflows (Suc 0) None s w))
              = [Request ''https://api.github.com/rate_limit''
                   [(''Accept'', ''application/vnd.github.v3+json'')],
                 Request ''https://api.github.com/repos/apache/commons-lang/actions/workflows?per_page=100&page=1''
                   [(''Accept'', ''application/vnd.github.v3+json'')]])"
  by code_simp

end
